theory Spec2Isabelle
  imports Complex_Main
begin

section \<open>JavaScript values used by src/index.tsx\<close>

text \<open>
  A JavaScript number is modelled as an exact rational, together with the three
  non-finite values. Rounding of doubles and the sign of zero are not modelled.
\<close>

datatype number = NaN | PosInfinity | NegInfinity | Fin rat

fun num_mult :: "number \<Rightarrow> number \<Rightarrow> number" where
  "num_mult NaN y = NaN"
| "num_mult x NaN = NaN"
| "num_mult (Fin a) (Fin b) = Fin (a * b)"
| "num_mult (Fin a) y =
     (if a = 0 then NaN
      else if (0 < a) = (y = PosInfinity) then PosInfinity else NegInfinity)"
| "num_mult x (Fin b) =
     (if b = 0 then NaN
      else if (0 < b) = (x = PosInfinity) then PosInfinity else NegInfinity)"
| "num_mult x y = (if x = y then PosInfinity else NegInfinity)"

fun num_div :: "number \<Rightarrow> number \<Rightarrow> number" where
  "num_div NaN y = NaN"
| "num_div x NaN = NaN"
| "num_div (Fin a) (Fin b) =
     (if b = 0
      then (if a = 0 then NaN else if 0 < a then PosInfinity else NegInfinity)
      else Fin (a / b))"
| "num_div (Fin a) y = Fin 0"
| "num_div x (Fin b) =
     (if (0 \<le> b) = (x = PosInfinity) then PosInfinity else NegInfinity)"
| "num_div x y = NaN"

fun num_sub :: "number \<Rightarrow> number \<Rightarrow> number" where
  "num_sub NaN y = NaN"
| "num_sub x NaN = NaN"
| "num_sub (Fin a) (Fin b) = Fin (a - b)"
| "num_sub (Fin a) PosInfinity = NegInfinity"
| "num_sub (Fin a) NegInfinity = PosInfinity"
| "num_sub x (Fin b) = x"
| "num_sub x y = (if x = y then NaN else x)"

text \<open>The comparisons \<open><\<close>, \<open><=\<close> and \<open>>=\<close>: every comparison with NaN is false.\<close>

fun num_less :: "number \<Rightarrow> number \<Rightarrow> bool" where
  "num_less NaN y = False"
| "num_less x NaN = False"
| "num_less (Fin a) (Fin b) = (a < b)"
| "num_less x PosInfinity = (x \<noteq> PosInfinity)"
| "num_less NegInfinity y = (y \<noteq> NegInfinity)"
| "num_less x y = False"

fun num_le :: "number \<Rightarrow> number \<Rightarrow> bool" where
  "num_le NaN y = False"
| "num_le x NaN = False"
| "num_le (Fin a) (Fin b) = (a \<le> b)"
| "num_le x PosInfinity = True"
| "num_le NegInfinity y = True"
| "num_le x y = False"

definition num_ge :: "number \<Rightarrow> number \<Rightarrow> bool" where
  "num_ge x y = num_le y x"

text \<open>\<open>Math.min\<close> of two arguments: NaN when either argument is NaN.\<close>

definition num_min :: "number \<Rightarrow> number \<Rightarrow> number" where
  "num_min x y =
     (if x = NaN \<or> y = NaN then NaN else if num_le x y then x else y)"

subsection \<open>Strings\<close>

text \<open>Decimal rendering of a non-negative integer, as template literals produce it.\<close>

function show_nat :: "nat \<Rightarrow> string" where
  "show_nat n =
     (if n < 10 then [''0123456789'' ! n]
      else show_nat (n div 10) @ [''0123456789'' ! (n mod 10)])"
  by pat_completeness auto
termination
  by (relation "measure (\<lambda>n. n)") auto

declare show_nat.simps [simp del]

text \<open>
  \<open>Number.prototype.toFixed(d)\<close>: the sign, then the integer nearest to the
  magnitude scaled by \<open>10^d\<close> (the larger one on a tie), printed with \<open>d\<close>
  decimals. The exponent notation of magnitudes from \<open>1e21\<close> on is not modelled.
\<close>

definition toFixed :: "nat \<Rightarrow> number \<Rightarrow> string" where
  "toFixed d x =
     (case x of
        NaN \<Rightarrow> ''NaN''
      | PosInfinity \<Rightarrow> ''Infinity''
      | NegInfinity \<Rightarrow> ''-Infinity''
      | Fin r \<Rightarrow>
          (let n = nat \<lfloor>\<bar>r\<bar> * 10 ^ d + 1 / 2\<rfloor>;
               frac = show_nat (n mod 10 ^ d)
           in (if r < 0 then ''-'' else '''') @ show_nat (n div 10 ^ d) @
              (if d = 0 then ''''
               else ''.'' @ replicate (d - length frac) (CHR ''0'') @ frac)))"

text \<open>
  \<open>String.prototype.trim\<close>. Strings are sequences of 8-bit code units here, so the
  white space and line terminators are tab, line feed, vertical tab, form feed,
  carriage return, space and no-break space.
\<close>

definition is_white_space :: "char \<Rightarrow> bool" where
  "is_white_space c = (of_char c \<in> {9, 10, 11, 12, 13, 32, 160 :: nat})"

definition trim :: "string \<Rightarrow> string" where
  "trim s = rev (dropWhile is_white_space (rev (dropWhile is_white_space s)))"

subsection \<open>What a \<open>throw\<close> or a rejected promise carries, and how a handler ends\<close>

text \<open>
  The catch handler of \<open>handleRenderVideo\<close> tells an \<open>Error\<close> object (with
  its message) from any other thrown value.
\<close>

datatype thrown = Error string | NonError

definition errorMessage :: "thrown \<Rightarrow> string" where
  "errorMessage e = (case e of Error m \<Rightarrow> m | NonError \<Rightarrow> ''Unknown error'')"

text \<open>
  An awaited promise resolves, rejects, or never settles. An async handler runs to
  its end (\<open>Completed\<close>), leaves through a \<open>return\<close> (\<open>Returned\<close>), throws,
  or stays suspended at an \<open>await\<close> for ever (\<open>Pending\<close>).
\<close>

datatype 'a settled = Resolved 'a | Rejected thrown | NeverSettles

datatype outcome = Completed | Returned | Threw thrown | Pending

section \<open>The data model (lines 5-26)\<close>

type_synonym url = string

record File =
  name :: string
  content :: "nat list"

record VideoFile =
  id' :: string
  "file" :: File
  objectUrl :: url

datatype format = webm | mp4

datatype Blob = Blob (parts: "nat list") (mime: string)

datatype track = VideoTrack string | AudioTrack string

datatype node = BufferSource | Oscillator | Gain | Destination

record recorderOptions =
  mimeType :: string
  videoBitsPerSecond :: "nat option"

text \<open>The component state: one field per \<open>useState\<close> hook.\<close>

record state =
  videos :: "VideoFile list"
  audioFile :: "File option"
  isRendering :: bool
  progress :: number
  status :: string
  outputUrl :: "url option"
  musicPrompt :: string
  musicDescription :: string
  isGeneratingMusic :: bool
  masterDuration :: number
  masterLoop :: bool
  outputFormat :: format

text \<open>
  Every call with an effect outside the handler is recorded in order: calls into
  the browser, and calls of the state setters.
\<close>

datatype event =
    Alert string
  | ConsoleError string
  | CreateObjectURL url
  | RevokeObjectURL url
  | GenerateContent string string
  | CreateElement string
  | VideoSetVolume rat
  | VideoDisablePictureInPicture
  | VideoSetSrc url
  | CanvasResize nat nat
  | GetContext string
  | CaptureStream nat
  | NewAudioContext
  | CreateMediaStreamDestination
  | DecodeAudioData File
  | CreateBufferSource
  | SetBuffer "nat list"
  | CreateOscillator
  | CreateGain
  | GainSetValueAtTime rat rat
  | Connect node node
  | Start node
  | NewMediaStream "track list"
  | NewMediaRecorder "track list" recorderOptions
  | RecorderStart
  | VideoPlay
  | VideoSeek rat
  | DrawImage url nat nat
  | RequestAnimationFrame
  | RecorderStop
  | VideoPause
  | AudioContextClose
  | NewBlob "Blob list" string
  | SetVideos "VideoFile list"
  | SetAudioFile File
  | SetIsRendering bool
  | SetProgress number
  | SetStatus string
  | SetOutputUrl "url option"
  | SetMusicDescription string
  | SetIsGeneratingMusic bool

text \<open>
  The world is the component state, the trace of effects, the counters of the
  calls whose results come from the browser (object URLs handed out, and readings
  of \<open>Date.now()\<close> and \<open>performance.now()\<close> taken so far), and the size
  of the off-screen canvas of the render, which \<open>drawImage\<close> reads when it draws.
\<close>

record world = state +
  trace :: "event list"
  urlCount :: nat
  dateCalls :: nat
  perfCalls :: nat
  canvasWidth :: nat
  canvasHeight :: nat

text \<open>
  What the browser and the AI service answer. The handlers take it as a parameter:
  none of it is code of this repository.
\<close>

record browser =
  dateNow :: "nat \<Rightarrow> nat"
  perfClock :: "nat \<Rightarrow> rat"
  playhead :: "nat \<Rightarrow> rat \<times> number"
  isTypeSupported :: "string \<Rightarrow> bool"
  loadedMetadata :: "url \<Rightarrow> (nat \<times> nat) option"
  context2d :: bool
  canvasVideoTracks :: "track list"
  destinationAudioTracks :: "track list"
  audioCurrentTime :: rat
  decodeAudioData :: "File \<Rightarrow> thrown + nat list"
  newMediaRecorder :: "recorderOptions \<Rightarrow> thrown option"
  playResult :: "url \<Rightarrow> thrown option"
  recorded :: "Blob list"
  generateContent :: "string \<Rightarrow> string \<Rightarrow> string settled"

section \<open>Primitive effects\<close>

definition emit :: "event \<Rightarrow> world \<Rightarrow> world" where
  "emit e w = w\<lparr>trace := trace w @ [e]\<rparr>"

definition emits :: "event list \<Rightarrow> world \<Rightarrow> world" where
  "emits es w = w\<lparr>trace := trace w @ es\<rparr>"

definition setVideos :: "VideoFile list \<Rightarrow> world \<Rightarrow> world" where
  "setVideos v w = emit (SetVideos v) (w\<lparr>videos := v\<rparr>)"

definition setAudioFile :: "File \<Rightarrow> world \<Rightarrow> world" where
  "setAudioFile f w = emit (SetAudioFile f) (w\<lparr>audioFile := Some f\<rparr>)"

definition setIsRendering :: "bool \<Rightarrow> world \<Rightarrow> world" where
  "setIsRendering b w = emit (SetIsRendering b) (w\<lparr>isRendering := b\<rparr>)"

definition setProgress :: "number \<Rightarrow> world \<Rightarrow> world" where
  "setProgress p w = emit (SetProgress p) (w\<lparr>progress := p\<rparr>)"

definition setStatus :: "string \<Rightarrow> world \<Rightarrow> world" where
  "setStatus s w = emit (SetStatus s) (w\<lparr>status := s\<rparr>)"

definition setOutputUrl :: "url option \<Rightarrow> world \<Rightarrow> world" where
  "setOutputUrl u w = emit (SetOutputUrl u) (w\<lparr>outputUrl := u\<rparr>)"

definition setMusicDescription :: "string \<Rightarrow> world \<Rightarrow> world" where
  "setMusicDescription d w = emit (SetMusicDescription d) (w\<lparr>musicDescription := d\<rparr>)"

definition setIsGeneratingMusic :: "bool \<Rightarrow> world \<Rightarrow> world" where
  "setIsGeneratingMusic b w =
     emit (SetIsGeneratingMusic b) (w\<lparr>isGeneratingMusic := b\<rparr>)"

text \<open>\<open>URL.createObjectURL\<close> hands out a URL it has not handed out before.\<close>

definition createObjectURL :: "world \<Rightarrow> url \<times> world" where
  "createObjectURL w =
     (let u = ''blob:'' @ show_nat (urlCount w)
      in (u, emit (CreateObjectURL u) (w\<lparr>urlCount := Suc (urlCount w)\<rparr>)))"

definition revokeObjectURL :: "url \<Rightarrow> world \<Rightarrow> world" where
  "revokeObjectURL u w = emit (RevokeObjectURL u) w"

definition dateNowCall :: "browser \<Rightarrow> world \<Rightarrow> nat \<times> world" where
  "dateNowCall env w = (dateNow env (dateCalls w), w\<lparr>dateCalls := Suc (dateCalls w)\<rparr>)"

definition performanceNow :: "browser \<Rightarrow> world \<Rightarrow> rat \<times> world" where
  "performanceNow env w =
     (perfClock env (perfCalls w), w\<lparr>perfCalls := Suc (perfCalls w)\<rparr>)"

section \<open>The component (lines 11-253)\<close>

definition initialState :: state where
  "initialState =
     \<lparr>videos = [], audioFile = None, isRendering = False, progress = Fin 0,
      status = ''Ready. Upload videos to begin.'', outputUrl = None,
      musicPrompt = ''Epic cinematic score'', musicDescription = '''',
      isGeneratingMusic = False, masterDuration = Fin 10, masterLoop = True,
      outputFormat = webm\<rparr>"

definition initialWorld :: world where
  "initialWorld = state.extend initialState
     \<lparr>trace = [], urlCount = 0, dateCalls = 0, perfCalls = 0,
      canvasWidth = 0, canvasHeight = 0\<rparr>"

text \<open>Line 37: \<open>videos.length * masterDuration\<close>.\<close>

definition totalDuration :: "'a state_scheme \<Rightarrow> number" where
  "totalDuration s = num_mult (Fin (of_nat (length (videos s)))) (masterDuration s)"

subsection \<open>handleVideoUpload (lines 56-69)\<close>

text \<open>The \<open>files.map\<close> of lines 61-65: one \<open>Date.now()\<close> and one object URL per file.\<close>

fun newVideoFiles :: "browser \<Rightarrow> File list \<Rightarrow> world \<Rightarrow> VideoFile list \<times> world" where
  "newVideoFiles env [] w = ([], w)"
| "newVideoFiles env (f # fs) w =
     (case dateNowCall env w of (t, w1) \<Rightarrow>
      case createObjectURL w1 of (u, w2) \<Rightarrow>
      case newVideoFiles env fs w2 of (vs, w3) \<Rightarrow>
        (\<lparr>id' = name f @ ''-'' @ show_nat t, file = f, objectUrl = u\<rparr> # vs, w3))"

text \<open>The argument is \<open>event.target.files\<close>, which may be null.\<close>

definition handleVideoUpload :: "browser \<Rightarrow> File list option \<Rightarrow> world \<Rightarrow> world" where
  "handleVideoUpload env targetFiles w =
     (let files = (case targetFiles of None \<Rightarrow> [] | Some fs \<Rightarrow> fs)
      in if length files = 0 then w
         else case newVideoFiles env files w of (newVideos, w1) \<Rightarrow>
           setStatus (show_nat (length files) @
               '' video(s) added. Adjust master settings and render.'')
             (setVideos (videos w1 @ newVideos) w1))"

subsection \<open>handleAudioUpload (lines 71-77)\<close>

definition handleAudioUpload :: "File list option \<Rightarrow> world \<Rightarrow> world" where
  "handleAudioUpload targetFiles w =
     (case targetFiles of
        None \<Rightarrow> w
      | Some [] \<Rightarrow> w
      | Some (f # _) \<Rightarrow> setAudioFile f w)"

subsection \<open>handleGenerateMusic (lines 79-102)\<close>

text \<open>Line 88: the prompt sent to the model.\<close>

definition fullPrompt :: "'a state_scheme \<Rightarrow> string" where
  "fullPrompt s =
     ''Describe a piece of instrumental background music for a video that is '' @
     toFixed 2 (totalDuration s) @ '' seconds long. The desired mood is: '' @
     [CHR 0x22] @ musicPrompt s @ [CHR 0x22] @
     ''. Describe the instruments, tempo, and emotional progression of the music.''"

definition handleGenerateMusic :: "browser \<Rightarrow> world \<Rightarrow> outcome \<times> world" where
  "handleGenerateMusic env w =
     (if trim (musicPrompt w) = [] \<or> num_le (totalDuration w) (Fin 0) then
        (Returned,
         emit (Alert ''Please add videos to set a total duration and enter a music prompt.'') w)
      else
        let w1 = emit (GenerateContent ''gemini-2.5-flash'' (fullPrompt w))
                   (setMusicDescription [] (setIsGeneratingMusic True w))
        in case generateContent env ''gemini-2.5-flash'' (fullPrompt w) of
             Resolved text \<Rightarrow>
               (Completed, setIsGeneratingMusic False (setMusicDescription text w1))
           | Rejected e \<Rightarrow>
               (Completed,
                setIsGeneratingMusic False
                  (setMusicDescription
                     ''Failed to generate music description. Please try again.''
                     (emit (ConsoleError ''Error generating music description:'') w1)))
           | NeverSettles \<Rightarrow> (Pending, w1))"

subsection \<open>handleRemoveVideo (lines 104-113) and handleClearAllVideos (lines 115-119)\<close>

definition handleRemoveVideo :: "string \<Rightarrow> world \<Rightarrow> world" where
  "handleRemoveVideo idToRemove w =
     (let prevVideos = videos w;
          w1 = (case find (\<lambda>v. id' v = idToRemove) prevVideos of
                  Some videoToRemove \<Rightarrow> revokeObjectURL (objectUrl videoToRemove) w
                | None \<Rightarrow> w)
      in setStatus ''Video removed.''
           (setVideos (filter (\<lambda>video. id' video \<noteq> idToRemove) prevVideos) w1))"

definition handleClearAllVideos :: "world \<Rightarrow> world" where
  "handleClearAllVideos w =
     setStatus ''All videos cleared.''
       (setVideos [] (fold (\<lambda>video. revokeObjectURL (objectUrl video)) (videos w) w))"

subsection \<open>handleRenderVideo (lines 122-253)\<close>

text \<open>
  Lines 174-192: the audio graph. With an audio file, its decoded buffer feeds the
  stream destination; without one, an oscillator behind a gain of zero does.
  Decoding may reject.
\<close>

definition audioSetup :: "browser \<Rightarrow> File option \<Rightarrow> world \<Rightarrow> thrown option \<times> world" where
  "audioSetup env af w =
     (let w1 = emits [NewAudioContext, CreateMediaStreamDestination] w
      in case af of
           Some f \<Rightarrow>
             (let w2 = emit (DecodeAudioData f) w1
              in case decodeAudioData env f of
                   Inl e \<Rightarrow> (Some e, w2)
                 | Inr audioBuffer \<Rightarrow>
                     (None,
                      emits [CreateBufferSource, SetBuffer audioBuffer,
                             Connect BufferSource Destination, Start BufferSource] w2))
         | None \<Rightarrow>
             (None,
              emits [CreateOscillator, CreateGain,
                     GainSetValueAtTime 0 (audioCurrentTime env),
                     Connect Oscillator Gain, Connect Gain Destination,
                     Start Oscillator] w1))"

text \<open>
  Lines 203-210: \<open>ondataavailable\<close> pushes the delivered data on \<open>chunks\<close>;
  \<open>onstop\<close> turns the chunks into one blob and publishes its object URL.
\<close>

definition recorder_ondataavailable :: "Blob \<Rightarrow> Blob list \<Rightarrow> Blob list" where
  "recorder_ondataavailable data chunks = chunks @ [data]"

definition recorder_onstop :: "string \<Rightarrow> Blob list \<Rightarrow> world \<Rightarrow> world" where
  "recorder_onstop mimeType' chunks w =
     (case createObjectURL (emit (NewBlob chunks mimeType') w) of (u, w1) \<Rightarrow>
        setIsRendering False
          (setStatus ''Render complete! Your video is ready for download.''
             (setOutputUrl (Some u) w1)))"

text \<open>
  Line 148: a canvas is created with the default size of 300 by 150. Lines 159-163:
  the \<open>onloadedmetadata\<close> handler gives the canvas the size of the video whose
  metadata has loaded. The handler is never detached, so it runs again for every
  source the video element is given later.
\<close>

definition canvasSized :: "nat \<Rightarrow> nat \<Rightarrow> world \<Rightarrow> world" where
  "canvasSized width height w = w\<lparr>canvasWidth := width, canvasHeight := height\<rparr>"

definition createCanvas :: "world \<Rightarrow> world" where
  "createCanvas w = emit (CreateElement ''canvas'') (canvasSized 300 150 w)"

definition tempVideo_onloadedmetadata :: "nat \<Rightarrow> nat \<Rightarrow> world \<Rightarrow> world" where
  "tempVideo_onloadedmetadata videoWidth videoHeight w =
     emit (CanvasResize videoWidth videoHeight) (canvasSized videoWidth videoHeight w)"

text \<open>
  The variables of the draw loop (lines 214, 221, 223), and one pass through the
  body of the \<open>while\<close> (lines 226-238) up to the request for the next animation
  frame. The closure \<open>c\<close> holds the component values the callback was created with;
  the frame is drawn at the size the canvas has at that moment (line 235).
\<close>

record loopVars =
  elapsed :: rat
  lastFrameTime :: rat
  overallProgress :: rat

definition frameStep ::
  "browser \<Rightarrow> 'a state_scheme \<Rightarrow> VideoFile \<Rightarrow> loopVars \<Rightarrow> world \<Rightarrow> loopVars \<times> world" where
  "frameStep env c video l w =
     (case performanceNow env w of (now, w1) \<Rightarrow>
      case playhead env (perfCalls w) of (currentTime, duration) \<Rightarrow>
        (let delta = now - lastFrameTime l;
             elapsed' = elapsed l + delta;
             w2 = (if masterLoop c \<and>
                      num_ge (Fin currentTime) (num_sub duration (Fin (1 / 10)))
                   then emit (VideoSeek 0) w1 else w1);
             w3 = emit (DrawImage (objectUrl video) (canvasWidth w2) (canvasHeight w2)) w2;
             overall' = overallProgress l + delta;
             w4 = setProgress
                    (num_min (Fin 100)
                       (num_mult
                          (num_div (Fin overall') (num_mult (totalDuration c) (Fin 1000)))
                          (Fin 100))) w3
         in (\<lparr>elapsed = elapsed', lastFrameTime = now, overallProgress = overall'\<rparr>,
             emit RequestAnimationFrame w4)))"

text \<open>
  Lines 225-241. \<open>fuel\<close> is the number of animation frames the browser will still
  deliver: with none left the awaited promise of line 240 never resolves.
\<close>

fun drawLoop ::
  "browser \<Rightarrow> 'a state_scheme \<Rightarrow> VideoFile \<Rightarrow> nat \<Rightarrow> loopVars \<Rightarrow> world
     \<Rightarrow> outcome \<times> loopVars \<times> nat \<times> world" where
  "drawLoop env c video fuel l w =
     (if num_less (Fin (elapsed l)) (num_mult (masterDuration c) (Fin 1000)) then
        (case frameStep env c video l w of (l', w') \<Rightarrow>
           (case fuel of
              0 \<Rightarrow> (Pending, l', 0, w')
            | Suc fuel' \<Rightarrow> drawLoop env c video fuel' l' w'))
      else (Completed, l, fuel, w))"

declare drawLoop.simps [simp del]

text \<open>
  Lines 217-241: the body of the \<open>for\<close> loop, for one clip. While \<open>play()\<close>
  is awaited the metadata of the clip loads and the handler of line 159 sizes the
  canvas by this clip; a \<open>play()\<close> that rejects takes the run to the catch first.
\<close>

definition renderClip ::
  "browser \<Rightarrow> 'a state_scheme \<Rightarrow> VideoFile \<Rightarrow> nat \<Rightarrow> rat \<Rightarrow> world
     \<Rightarrow> outcome \<times> rat \<times> nat \<times> world" where
  "renderClip env c video fuel overall w =
     (let w1 = emits [VideoSetSrc (objectUrl video), VideoPlay]
                 (setStatus (''Rendering: '' @ name (file video)) w)
      in case playResult env (objectUrl video) of
           Some e \<Rightarrow> (Threw e, overall, fuel, w1)
         | None \<Rightarrow>
             (let w2 = (case loadedMetadata env (objectUrl video) of
                          None \<Rightarrow> w1
                        | Some (videoWidth, videoHeight) \<Rightarrow>
                            tempVideo_onloadedmetadata videoWidth videoHeight w1)
              in case performanceNow env w2 of (t0, w3) \<Rightarrow>
                 case drawLoop env c video fuel
                        \<lparr>elapsed = 0, lastFrameTime = t0, overallProgress = overall\<rparr> w3 of
                   (out, l, fuel', w4) \<Rightarrow> (out, overallProgress l, fuel', w4)))"

text \<open>Lines 216-242: the \<open>for\<close> loop over the captured list of videos.\<close>

fun renderClips ::
  "browser \<Rightarrow> 'a state_scheme \<Rightarrow> VideoFile list \<Rightarrow> nat \<Rightarrow> rat \<Rightarrow> world
     \<Rightarrow> outcome \<times> rat \<times> nat \<times> world" where
  "renderClips env c [] fuel overall w = (Completed, overall, fuel, w)"
| "renderClips env c (video # rest) fuel overall w =
     (case renderClip env c video fuel overall w of
        (Completed, overall', fuel', w') \<Rightarrow> renderClips env c rest fuel' overall' w'
      | r \<Rightarrow> r)"

text \<open>
  Lines 135-246: the body of the \<open>try\<close>. The recorder delivers its data and its
  stop event after \<open>recorder.stop()\<close>, once the rest of the body (which cannot
  throw) has run; the two handlers are run at that point.
\<close>

definition tryBody :: "browser \<Rightarrow> 'a state_scheme \<Rightarrow> nat \<Rightarrow> world \<Rightarrow> outcome \<times> world" where
  "tryBody env c fuel w =
     (let mimeType = (if outputFormat c = mp4 then ''video/mp4'' else ''video/webm'')
      in if \<not> isTypeSupported env mimeType then
           (Returned,
            setIsRendering False
              (setStatus (''Error: Your browser does not support '' @ mimeType @
                          '' recording. Please choose another format.'') w))
         else
           let recorderOptions =
                 \<lparr>mimeType = mimeType,
                  videoBitsPerSecond =
                    (if outputFormat c = mp4 then Some 25000000 else None)\<rparr>;
               w1 = emits [CreateElement ''video'', VideoSetVolume 0,
                           VideoDisablePictureInPicture] (createCanvas w)
           in case videos c of
                [] \<Rightarrow> (Threw (Error ''Cannot read properties of undefined''), w1)
              | v0 # _ \<Rightarrow>
                  (let w2 = emit (VideoSetSrc (objectUrl v0)) w1
                   in case loadedMetadata env (objectUrl v0) of
                        None \<Rightarrow> (Threw (Error ''Failed to load video metadata.''), w2)
                      | Some (videoWidth, videoHeight) \<Rightarrow>
                          (let w3 = emit (GetContext ''2d'')
                                      (tempVideo_onloadedmetadata videoWidth videoHeight w2)
                           in if \<not> context2d env then
                                (Threw (Error ''Could not get canvas context''), w3)
                              else
                                case audioSetup env (audioFile c)
                                       (emit (CaptureStream 30) w3) of
                                  (Some e, w4) \<Rightarrow> (Threw e, w4)
                                | (None, w4) \<Rightarrow>
                                    (let combinedStream =
                                           canvasVideoTracks env @ destinationAudioTracks env;
                                         w5 = emits [NewMediaStream combinedStream,
                                                     NewMediaRecorder combinedStream
                                                       recorderOptions] w4
                                     in case newMediaRecorder env recorderOptions of
                                          Some e \<Rightarrow> (Threw e, w5)
                                        | None \<Rightarrow>
                                            (case renderClips env c (videos c) fuel 0
                                                    (emit RecorderStart w5) of
                                               (Completed, overall, fuel', w6) \<Rightarrow>
                                                 (Completed,
                                                  recorder_onstop mimeType
                                                    (fold recorder_ondataavailable
                                                       (recorded env) [])
                                                    (emits [RecorderStop, VideoPause,
                                                            AudioContextClose] w6))
                                             | (out, overall, fuel', w6) \<Rightarrow> (out, w6))))))"

text \<open>Lines 129-132: the state updates before the \<open>try\<close>.\<close>

definition renderInit :: "world \<Rightarrow> world" where
  "renderInit w =
     setOutputUrl None
       (setStatus ''Initializing render...'' (setProgress (Fin 0) (setIsRendering True w)))"

text \<open>
  Lines 122-253. The handler ends normally after its \<open>catch\<close> has run; it stays
  pending when the body does.
\<close>

definition handleRenderVideo :: "browser \<Rightarrow> nat \<Rightarrow> world \<Rightarrow> outcome \<times> world" where
  "handleRenderVideo env fuel w =
     (if length (videos w) = 0 then
        (Returned, emit (Alert ''Please upload videos before rendering.'') w)
      else
        case tryBody env w fuel (renderInit w) of
          (Threw error, w1) \<Rightarrow>
            (Completed,
             setIsRendering False
               (setStatus (''Error during render: '' @ errorMessage error)
                  (emit (ConsoleError ''Render failed:'') w1)))
        | r \<Rightarrow> r)"

subsection \<open>The Render button (lines 398-406)\<close>

text \<open>
  The button is shown only while \<open>outputUrl\<close> is falsy (null or the empty string);
  otherwise the download link takes its place.
\<close>

record button =
  disabled :: bool
  label :: string

definition renderButton :: "'a state_scheme \<Rightarrow> button option" where
  "renderButton s =
     (if outputUrl s \<noteq> None \<and> outputUrl s \<noteq> Some '''' then None
      else Some \<lparr>disabled = (isRendering s \<or> length (videos s) = 0),
                 label = (if isRendering s then ''Rendering...''
                          else ''Render Video ('' @ toFixed 1 (totalDuration s) @ ''s)'')\<rparr>)"

section \<open>Concrete inputs\<close>

text \<open>Two different files that carry the same name, and one audio file.\<close>

definition clipA :: File where
  "clipA = \<lparr>name = ''clip.mp4'', content = [1]\<rparr>"

definition clipB :: File where
  "clipB = \<lparr>name = ''clip.mp4'', content = [2]\<rparr>"

definition song :: File where
  "song = \<lparr>name = ''song.mp3'', content = [7, 7]\<rparr>"

text \<open>
  A browser in which everything succeeds: the wall clock stands at one millisecond
  while an upload is mapped, animation frames come 600 ms apart, WebM recording is
  supported (MP4 is not), and the AI service is unreachable.
\<close>

definition demoBrowser :: browser where
  "demoBrowser =
     \<lparr>dateNow = (\<lambda>n. 1700000000000),
      perfClock = (\<lambda>n. of_nat n * 600),
      playhead = (\<lambda>n. (0, Fin 5)),
      isTypeSupported = (\<lambda>m. m = ''video/webm''),
      loadedMetadata = (\<lambda>u. Some (640, 360)),
      context2d = True,
      canvasVideoTracks = [VideoTrack ''canvas''],
      destinationAudioTracks = [AudioTrack ''destination''],
      audioCurrentTime = 0,
      decodeAudioData = (\<lambda>f. Inr (content f)),
      newMediaRecorder = (\<lambda>opts. None),
      playResult = (\<lambda>u. None),
      recorded = [Blob [1, 2, 3] ''video/webm''],
      generateContent = (\<lambda>m p. Rejected (Error ''offline''))\<rparr>"

text \<open>The same browser, except that no video loads its metadata.\<close>

definition brokenVideoBrowser :: browser where
  "brokenVideoBrowser = demoBrowser\<lparr>loadedMetadata := (\<lambda>u. None)\<rparr>"

text \<open>One uploaded clip, to be shown for one second.\<close>

definition oneClipWorld :: world where
  "oneClipWorld =
     (handleVideoUpload demoBrowser (Some [clipA]) initialWorld)\<lparr>masterDuration := Fin 1\<rparr>"

text \<open>Two clips of the same name picked in one upload.\<close>

definition twinClipsWorld :: world where
  "twinClipsWorld = handleVideoUpload demoBrowser (Some [clipA, clipB]) initialWorld"

section \<open>Reading a trace\<close>

text \<open>The events a handler added to the trace of the world it started from.\<close>

definition eventsSince :: "world \<Rightarrow> world \<Rightarrow> event list" where
  "eventsSince w w' = drop (length (trace w)) (trace w')"

text \<open>Projections of a trace: the arguments of all events of one kind, in order.\<close>

definition videoSources :: "event list \<Rightarrow> url list" where
  "videoSources es = concat (map (\<lambda>e. case e of VideoSetSrc u \<Rightarrow> [u] | _ \<Rightarrow> []) es)"

definition createdUrls :: "event list \<Rightarrow> url list" where
  "createdUrls es = concat (map (\<lambda>e. case e of CreateObjectURL u \<Rightarrow> [u] | _ \<Rightarrow> []) es)"

definition revokedUrls :: "event list \<Rightarrow> url list" where
  "revokedUrls es = concat (map (\<lambda>e. case e of RevokeObjectURL u \<Rightarrow> [u] | _ \<Rightarrow> []) es)"

definition blobsMade :: "event list \<Rightarrow> (Blob list \<times> string) list" where
  "blobsMade es = concat (map (\<lambda>e. case e of NewBlob cs m \<Rightarrow> [(cs, m)] | _ \<Rightarrow> []) es)"

definition outputUrlsSet :: "event list \<Rightarrow> url option list" where
  "outputUrlsSet es = concat (map (\<lambda>e. case e of SetOutputUrl u \<Rightarrow> [u] | _ \<Rightarrow> []) es)"

definition progressValues :: "event list \<Rightarrow> number list" where
  "progressValues es = concat (map (\<lambda>e. case e of SetProgress p \<Rightarrow> [p] | _ \<Rightarrow> []) es)"

definition streamsMade :: "event list \<Rightarrow> track list list" where
  "streamsMade es = concat (map (\<lambda>e. case e of NewMediaStream ts \<Rightarrow> [ts] | _ \<Rightarrow> []) es)"

definition requestsSent :: "event list \<Rightarrow> (string \<times> string) list" where
  "requestsSent es =
     concat (map (\<lambda>e. case e of GenerateContent m p \<Rightarrow> [(m, p)] | _ \<Rightarrow> []) es)"

text \<open>
  The kinds of events of the three stretches of a render: building the audio graph,
  drawing one frame, and the whole per-clip loop.
\<close>

definition audioEvent :: "event \<Rightarrow> bool" where
  "audioEvent e =
     (case e of
        NewAudioContext \<Rightarrow> True | CreateMediaStreamDestination \<Rightarrow> True
      | DecodeAudioData f \<Rightarrow> True | CreateBufferSource \<Rightarrow> True | SetBuffer b \<Rightarrow> True
      | CreateOscillator \<Rightarrow> True | CreateGain \<Rightarrow> True | GainSetValueAtTime v t \<Rightarrow> True
      | Connect a b \<Rightarrow> True | Start a \<Rightarrow> True | _ \<Rightarrow> False)"

definition frameEvent :: "event \<Rightarrow> bool" where
  "frameEvent e =
     (case e of
        VideoSeek t \<Rightarrow> True | DrawImage u cw ch \<Rightarrow> True | SetProgress p \<Rightarrow> True
      | RequestAnimationFrame \<Rightarrow> True | _ \<Rightarrow> False)"

definition loopEvent :: "event \<Rightarrow> bool" where
  "loopEvent e =
     (case e of
        SetStatus s \<Rightarrow> True | VideoSetSrc u \<Rightarrow> True | VideoPlay \<Rightarrow> True
      | CanvasResize cw ch \<Rightarrow> True | _ \<Rightarrow> frameEvent e)"

text \<open>
  The events of the per-clip loop, spelled out. One frame: the restart of the clip
  when \<open>seek\<close> is set, the drawing at the canvas size, the stored progress \<open>p\<close>
  and the request for the next frame. One clip, entered with canvas size \<open>d\<close>:
  status, source and play, the canvas sized by the clip when its metadata loads,
  then its frames. The loop: the clips in order, each with its list of frames.
\<close>

definition frameEvents :: "url \<Rightarrow> nat \<times> nat \<Rightarrow> bool \<times> number \<Rightarrow> event list" where
  "frameEvents src d f =
     (if fst f then [VideoSeek 0] else []) @
     [DrawImage src (fst d) (snd d), SetProgress (snd f), RequestAnimationFrame]"

definition sizeFor :: "browser \<Rightarrow> nat \<times> nat \<Rightarrow> VideoFile \<Rightarrow> nat \<times> nat" where
  "sizeFor env d v = (case loadedMetadata env (objectUrl v) of None \<Rightarrow> d | Some d' \<Rightarrow> d')"

definition clipEvents ::
  "browser \<Rightarrow> nat \<times> nat \<Rightarrow> VideoFile \<Rightarrow> (bool \<times> number) list \<Rightarrow> event list" where
  "clipEvents env d v fs =
     [SetStatus (''Rendering: '' @ name (file v)), VideoSetSrc (objectUrl v), VideoPlay] @
     (case loadedMetadata env (objectUrl v) of
        None \<Rightarrow> []
      | Some (videoWidth, videoHeight) \<Rightarrow> [CanvasResize videoWidth videoHeight]) @
     concat (map (frameEvents (objectUrl v) (sizeFor env d v)) fs)"


text \<open>
  The events of lines 129-132, 148-171, 195-212, 244-246 with 205-210, and 249-251.
\<close>

definition initEvents :: "event list" where
  "initEvents =
     [SetIsRendering True, SetProgress (Fin 0), SetStatus ''Initializing render...'',
      SetOutputUrl None]"

definition catchEvents :: "thrown \<Rightarrow> event list" where
  "catchEvents e =
     [ConsoleError ''Render failed:'',
      SetStatus (''Error during render: '' @ errorMessage e), SetIsRendering False]"

definition setupEvents :: "url \<Rightarrow> nat \<Rightarrow> nat \<Rightarrow> event list" where
  "setupEvents src cw ch =
     [CreateElement ''canvas'', CreateElement ''video'', VideoSetVolume 0,
      VideoDisablePictureInPicture, VideoSetSrc src, CanvasResize cw ch,
      GetContext ''2d'', CaptureStream 30]"

definition recorderEvents :: "track list \<Rightarrow> recorderOptions \<Rightarrow> event list" where
  "recorderEvents tracks opts =
     [NewMediaStream tracks, NewMediaRecorder tracks opts, RecorderStart]"

definition finishEvents :: "Blob list \<Rightarrow> string \<Rightarrow> url \<Rightarrow> event list" where
  "finishEvents chunks m u =
     [RecorderStop, VideoPause, AudioContextClose, NewBlob chunks m, CreateObjectURL u,
      SetOutputUrl (Some u),
      SetStatus ''Render complete! Your video is ready for download.'',
      SetIsRendering False]"

text \<open>The audio graph built for an audio file with decoded buffer \<open>b\<close>, and without one.\<close>

definition fileAudioEvents :: "File \<Rightarrow> nat list \<Rightarrow> event list" where
  "fileAudioEvents f b =
     [NewAudioContext, CreateMediaStreamDestination, DecodeAudioData f,
      CreateBufferSource, SetBuffer b, Connect BufferSource Destination,
      Start BufferSource]"

definition silentAudioEvents :: "rat \<Rightarrow> event list" where
  "silentAudioEvents t =
     [NewAudioContext, CreateMediaStreamDestination, CreateOscillator, CreateGain,
      GainSetValueAtTime 0 t, Connect Oscillator Gain, Connect Gain Destination,
      Start Oscillator]"

text \<open>
  \<open>graph\<close> is the audio graph a render builds for the uploaded audio file, if
  any: with a file, the graph around the buffer the browser decoded from it.
\<close>

definition audioGraphFor :: "browser \<Rightarrow> File option \<Rightarrow> event list \<Rightarrow> bool" where
  "audioGraphFor env af graph =
     (case af of
        None \<Rightarrow> graph = silentAudioEvents (audioCurrentTime env)
      | Some f \<Rightarrow>
          (case decodeAudioData env f of
             Inl e \<Rightarrow> False
           | Inr b \<Rightarrow> graph = fileAudioEvents f b))"

text \<open>A stored progress value is a finite number of at most 100, and one in 0..100.\<close>

definition atMostHundred :: "number \<Rightarrow> bool" where
  "atMostHundred p = (case p of Fin r \<Rightarrow> r \<le> 100 | _ \<Rightarrow> False)"

definition inPercentRange :: "number \<Rightarrow> bool" where
  "inPercentRange p = (case p of Fin r \<Rightarrow> 0 \<le> r \<and> r \<le> 100 | _ \<Rightarrow> False)"

definition progressOk :: "bool \<Rightarrow> number \<Rightarrow> bool" where
  "progressOk nonneg p = (if nonneg then inPercentRange p else atMostHundred p)"

text \<open>
  Two assumptions on the browser used below: \<open>performance.now()\<close> never runs
  backwards; and a stronger one, successive readings lie at least \<open>d\<close> apart.
\<close>

definition monotoneClock :: "browser \<Rightarrow> bool" where
  "monotoneClock env = (\<forall>n. perfClock env n \<le> perfClock env (Suc n))"

definition advancingClock :: "browser \<Rightarrow> rat \<Rightarrow> bool" where
  "advancingClock env d = (0 < d \<and> (\<forall>n. perfClock env n + d \<le> perfClock env (Suc n)))"

text \<open>
  A browser in which no step of a render of the state \<open>s\<close> fails: the format is
  supported, the first video loads its metadata, every video starts playing, the
  canvas has a 2d context, the audio file (if any) decodes, and the recorder can be
  constructed.
\<close>

definition renderSucceeds :: "browser \<Rightarrow> 'a state_scheme \<Rightarrow> bool" where
  "renderSucceeds env s =
     (isTypeSupported env (if outputFormat s = mp4 then ''video/mp4'' else ''video/webm'') \<and>
      (case videos s of [] \<Rightarrow> True | v0 # rest \<Rightarrow> loadedMetadata env (objectUrl v0) \<noteq> None) \<and>
      list_all (\<lambda>v. playResult env (objectUrl v) = None) (videos s) \<and>
      context2d env \<and>
      (case audioFile s of None \<Rightarrow> True
       | Some f \<Rightarrow> (case decodeAudioData env f of Inl e \<Rightarrow> False | Inr b \<Rightarrow> True)) \<and>
      newMediaRecorder env
        \<lparr>mimeType = (if outputFormat s = mp4 then ''video/mp4'' else ''video/webm''),
         videoBitsPerSecond = (if outputFormat s = mp4 then Some 25000000 else None)\<rparr>
        = None)"

section \<open>Unfolding the effects and the concrete inputs\<close>

lemmas effect_defs =
  emit_def emits_def setVideos_def setAudioFile_def setIsRendering_def setProgress_def
  setStatus_def setOutputUrl_def setMusicDescription_def setIsGeneratingMusic_def
  createObjectURL_def revokeObjectURL_def dateNowCall_def performanceNow_def
  canvasSized_def createCanvas_def tempVideo_onloadedmetadata_def

lemmas fixture_defs =
  clipA_def clipB_def song_def demoBrowser_def brokenVideoBrowser_def oneClipWorld_def
  twinClipsWorld_def initialWorld_def initialState_def state.extend_def

lemmas projection_defs =
  videoSources_def createdUrls_def revokedUrls_def blobsMade_def outputUrlsSet_def
  progressValues_def requestsSent_def streamsMade_def

lemma oneClipWorld_fields:
  "videos oneClipWorld =
     [\<lparr>id' = ''clip.mp4-1700000000000'', file = clipA, objectUrl = ''blob:0''\<rparr>]"
  "audioFile oneClipWorld = None" "outputFormat oneClipWorld = webm"
  "masterDuration oneClipWorld = Fin 1" "masterLoop oneClipWorld = True"
  "musicPrompt oneClipWorld = ''Epic cinematic score''"
  "isGeneratingMusic oneClipWorld = False" "musicDescription oneClipWorld = []"
  "outputUrl oneClipWorld = None" "isRendering oneClipWorld = False"
  "progress oneClipWorld = Fin 0" "perfCalls oneClipWorld = 0" "urlCount oneClipWorld = 1"
  "canvasWidth oneClipWorld = 0" "canvasHeight oneClipWorld = 0"
  "trace oneClipWorld =
     [CreateObjectURL ''blob:0'',
      SetVideos [\<lparr>id' = ''clip.mp4-1700000000000'', file = clipA, objectUrl = ''blob:0''\<rparr>],
      SetStatus ''1 video(s) added. Adjust master settings and render.'']"
  by (simp_all add: fixture_defs handleVideoUpload_def effect_defs show_nat.simps Let_def)

section \<open>What the stages of a render add to the trace\<close>

lemma projections_Nil [simp]:
  "videoSources [] = []" "createdUrls [] = []" "revokedUrls [] = []" "blobsMade [] = []"
  "outputUrlsSet [] = []" "progressValues [] = []" "requestsSent [] = []"
  "streamsMade [] = []"
  by (simp_all add: projection_defs)

lemma projections_append [simp]:
  "videoSources (xs @ ys) = videoSources xs @ videoSources ys"
  "createdUrls (xs @ ys) = createdUrls xs @ createdUrls ys"
  "revokedUrls (xs @ ys) = revokedUrls xs @ revokedUrls ys"
  "blobsMade (xs @ ys) = blobsMade xs @ blobsMade ys"
  "outputUrlsSet (xs @ ys) = outputUrlsSet xs @ outputUrlsSet ys"
  "progressValues (xs @ ys) = progressValues xs @ progressValues ys"
  "requestsSent (xs @ ys) = requestsSent xs @ requestsSent ys"
  "streamsMade (xs @ ys) = streamsMade xs @ streamsMade ys"
  by (simp_all add: projection_defs)

lemma projections_Cons [simp]:
  "videoSources (e # es) = (case e of VideoSetSrc u \<Rightarrow> [u] | _ \<Rightarrow> []) @ videoSources es"
  "createdUrls (e # es) = (case e of CreateObjectURL u \<Rightarrow> [u] | _ \<Rightarrow> []) @ createdUrls es"
  "revokedUrls (e # es) = (case e of RevokeObjectURL u \<Rightarrow> [u] | _ \<Rightarrow> []) @ revokedUrls es"
  "blobsMade (e # es) = (case e of NewBlob cs m \<Rightarrow> [(cs, m)] | _ \<Rightarrow> []) @ blobsMade es"
  "outputUrlsSet (e # es) = (case e of SetOutputUrl u \<Rightarrow> [u] | _ \<Rightarrow> []) @ outputUrlsSet es"
  "progressValues (e # es) = (case e of SetProgress p \<Rightarrow> [p] | _ \<Rightarrow> []) @ progressValues es"
  "requestsSent (e # es) =
     (case e of GenerateContent m p \<Rightarrow> [(m, p)] | _ \<Rightarrow> []) @ requestsSent es"
  "streamsMade (e # es) = (case e of NewMediaStream ts \<Rightarrow> [ts] | _ \<Rightarrow> []) @ streamsMade es"
  by (simp_all add: projection_defs)

lemma drawLoop_0:
  "drawLoop env c v 0 l w =
     (if num_less (Fin (elapsed l)) (num_mult (masterDuration c) (Fin 1000))
      then (case frameStep env c v l w of (l', w') \<Rightarrow> (Pending, l', 0, w'))
      else (Completed, l, 0, w))"
  by (subst drawLoop.simps) simp

lemma drawLoop_Suc:
  "drawLoop env c v (Suc n) l w =
     (if num_less (Fin (elapsed l)) (num_mult (masterDuration c) (Fin 1000))
      then (case frameStep env c v l w of (l', w') \<Rightarrow> drawLoop env c v n l' w')
      else (Completed, l, Suc n, w))"
  by (subst drawLoop.simps) simp

lemma list_all_loop_no_side:
  "list_all loopEvent es \<Longrightarrow>
     createdUrls es = [] \<and> blobsMade es = [] \<and> outputUrlsSet es = [] \<and>
     streamsMade es = []"
  by (induction es)
     (auto simp: loopEvent_def frameEvent_def projection_defs split: event.splits)

lemma list_all_audio_no_side:
  "list_all audioEvent es \<Longrightarrow>
     createdUrls es = [] \<and> blobsMade es = [] \<and> outputUrlsSet es = [] \<and>
     videoSources es = [] \<and> progressValues es = [] \<and> streamsMade es = []"
  by (induction es)
     (auto simp: audioEvent_def projection_defs split: event.splits)

lemma frameEvent_loopEvent: "frameEvent e \<Longrightarrow> loopEvent e"
  by (cases e) (simp_all add: loopEvent_def frameEvent_def)

lemma eventsSince_self [simp]: "eventsSince w w = []"
  by (simp add: eventsSince_def)

lemma eventsSince_append: "trace w' = trace w @ es \<Longrightarrow> eventsSince w w' = es"
  by (simp add: eventsSince_def)

lemma eventsSince_trans:
  "trace w1 = trace w @ a \<Longrightarrow> trace w2 = trace w1 @ b \<Longrightarrow>
     eventsSince w w2 = eventsSince w w1 @ eventsSince w1 w2"
  by (simp add: eventsSince_def)

lemma canvasSized_fields [simp]:
  "trace (canvasSized a b w) = trace w" "outputUrl (canvasSized a b w) = outputUrl w"
  "urlCount (canvasSized a b w) = urlCount w" "perfCalls (canvasSized a b w) = perfCalls w"
  "progress (canvasSized a b w) = progress w"
  "canvasWidth (canvasSized a b w) = a" "canvasHeight (canvasSized a b w) = b"
  by (simp_all add: canvasSized_def)

lemma frameStep_eq:
  "frameStep env c v l w =
     (\<lparr>elapsed = elapsed l + (perfClock env (perfCalls w) - lastFrameTime l),
       lastFrameTime = perfClock env (perfCalls w),
       overallProgress = overallProgress l + (perfClock env (perfCalls w) - lastFrameTime l)\<rparr>,
      emit RequestAnimationFrame
        (setProgress
           (num_min (Fin 100)
              (num_mult
                 (num_div
                    (Fin (overallProgress l + (perfClock env (perfCalls w) - lastFrameTime l)))
                    (num_mult (totalDuration c) (Fin 1000)))
                 (Fin 100)))
           (emits
              ((if masterLoop c \<and>
                   num_ge (Fin (fst (playhead env (perfCalls w))))
                     (num_sub (snd (playhead env (perfCalls w))) (Fin (1 / 10)))
                then [VideoSeek 0] else []) @
               [DrawImage (objectUrl v) (canvasWidth w) (canvasHeight w)])
              (w\<lparr>perfCalls := Suc (perfCalls w)\<rparr>))))"
  by (simp add: frameStep_def performanceNow_def Let_def emit_def emits_def
      split: prod.splits)

lemma frameStep_summary:
  "frameStep env c v l w = (l1, w1) \<Longrightarrow>
     \<exists>es. trace w1 = trace w @ es \<and> list_all frameEvent es \<and> videoSources es = [] \<and>
          outputUrl w1 = outputUrl w \<and> perfCalls w1 = Suc (perfCalls w)"
  by (auto simp: frameStep_def effect_defs Let_def frameEvent_def videoSources_def
      split: prod.splits if_splits)


lemma drawLoop_summary:
  "drawLoop env c v fuel l w = (out, l', fuel', w') \<Longrightarrow>
     (out = Completed \<or> out = Pending) \<and>
     (\<exists>es. trace w' = trace w @ es \<and> list_all frameEvent es \<and> videoSources es = []) \<and>
     outputUrl w' = outputUrl w"
proof (induction fuel arbitrary: l w)
  case 0
  then show ?case
    by (auto simp: drawLoop_0 split: if_splits prod.splits dest!: frameStep_summary)
next
  case (Suc n)
  show ?case
  proof (cases "num_less (Fin (elapsed l)) (num_mult (masterDuration c) (Fin 1000))")
    case False
    with Suc.prems show ?thesis by (simp add: drawLoop_Suc)
  next
    case True
    obtain l1 w1 where f: "frameStep env c v l w = (l1, w1)"
      by (cases "frameStep env c v l w")
    with True Suc.prems have d: "drawLoop env c v n l1 w1 = (out, l', fuel', w')"
      by (simp add: drawLoop_Suc)
    from frameStep_summary [OF f] Suc.IH [OF d] show ?thesis
      by (auto simp: videoSources_def)
  qed
qed


text \<open>
  A clip whose \<open>play()\<close> resolves: the draw loop starts in a world \<open>w0\<close> that
  differs from the one the clip was entered with by the status, the events up to the
  sizing of the canvas, the canvas size, and one reading of the clock.
\<close>

lemma renderClip_resolved:
  assumes "playResult env (objectUrl v) = None"
    and "renderClip env c v fuel ov w = (out, ov', fuel', w')"
  obtains w0 l1 where
    "drawLoop env c v fuel
       \<lparr>elapsed = 0, lastFrameTime = perfClock env (perfCalls w), overallProgress = ov\<rparr> w0 =
     (out, l1, fuel', w')"
    "ov' = overallProgress l1"
    "trace w0 = trace w @ clipEvents env (canvasWidth w, canvasHeight w) v []"
    "(canvasWidth w0, canvasHeight w0) = sizeFor env (canvasWidth w, canvasHeight w) v"
    "perfCalls w0 = Suc (perfCalls w)" "progress w0 = progress w"
    "outputUrl w0 = outputUrl w"
proof (cases "loadedMetadata env (objectUrl v)")
  case None
  let ?w0 = "snd (performanceNow env (emits [VideoSetSrc (objectUrl v), VideoPlay]
                 (setStatus (''Rendering: '' @ name (file v)) w)))"
  have "\<exists>l1. drawLoop env c v fuel
       \<lparr>elapsed = 0, lastFrameTime = perfClock env (perfCalls w), overallProgress = ov\<rparr> ?w0 =
     (out, l1, fuel', w') \<and> ov' = overallProgress l1"
    using assms None
    by (auto simp: renderClip_def Let_def effect_defs split: prod.splits)
  then obtain l1 where d: "drawLoop env c v fuel
       \<lparr>elapsed = 0, lastFrameTime = perfClock env (perfCalls w), overallProgress = ov\<rparr> ?w0 =
     (out, l1, fuel', w')" and o: "ov' = overallProgress l1"
    by blast
  show thesis
  proof (rule that [OF d o])
    show "trace ?w0 = trace w @ clipEvents env (canvasWidth w, canvasHeight w) v []"
      by (simp add: effect_defs clipEvents_def None)
    show "(canvasWidth ?w0, canvasHeight ?w0) =
        sizeFor env (canvasWidth w, canvasHeight w) v"
      by (simp add: effect_defs sizeFor_def None)
    show "perfCalls ?w0 = Suc (perfCalls w)" "progress ?w0 = progress w"
      "outputUrl ?w0 = outputUrl w"
      by (simp_all add: effect_defs)
  qed
next
  case (Some dims)
  obtain videoWidth videoHeight where dims: "dims = (videoWidth, videoHeight)"
    by (cases dims)
  note md = Some [unfolded dims]
  let ?w0 = "snd (performanceNow env (tempVideo_onloadedmetadata videoWidth videoHeight
               (emits [VideoSetSrc (objectUrl v), VideoPlay]
                 (setStatus (''Rendering: '' @ name (file v)) w))))"
  have "\<exists>l1. drawLoop env c v fuel
       \<lparr>elapsed = 0, lastFrameTime = perfClock env (perfCalls w), overallProgress = ov\<rparr> ?w0 =
     (out, l1, fuel', w') \<and> ov' = overallProgress l1"
    using assms md
    by (auto simp: renderClip_def Let_def effect_defs split: prod.splits)
  then obtain l1 where d: "drawLoop env c v fuel
       \<lparr>elapsed = 0, lastFrameTime = perfClock env (perfCalls w), overallProgress = ov\<rparr> ?w0 =
     (out, l1, fuel', w')" and o: "ov' = overallProgress l1"
    by blast
  show thesis
  proof (rule that [OF d o])
    show "trace ?w0 = trace w @ clipEvents env (canvasWidth w, canvasHeight w) v []"
      by (simp add: effect_defs clipEvents_def md)
    show "(canvasWidth ?w0, canvasHeight ?w0) =
        sizeFor env (canvasWidth w, canvasHeight w) v"
      by (simp add: effect_defs sizeFor_def md)
    show "perfCalls ?w0 = Suc (perfCalls w)" "progress ?w0 = progress w"
      "outputUrl ?w0 = outputUrl w"
      by (simp_all add: effect_defs)
  qed
qed


lemma clipEvents_loopEvents:
  "list_all loopEvent (clipEvents env d v [])" "videoSources (clipEvents env d v []) = [objectUrl v]"
  by (simp_all add: clipEvents_def loopEvent_def split: option.splits)


lemma renderClip_summary:
  "renderClip env c v fuel ov w = (out, ov', fuel', w') \<Longrightarrow>
     out \<noteq> Returned \<and>
     (\<exists>es. trace w' = trace w @ es \<and> list_all loopEvent es \<and>
           videoSources es = [objectUrl v]) \<and>
     outputUrl w' = outputUrl w"
proof (cases "playResult env (objectUrl v)")
  case (Some e)
  assume "renderClip env c v fuel ov w = (out, ov', fuel', w')"
  with Some show ?thesis
    by (auto simp: renderClip_def effect_defs Let_def loopEvent_def videoSources_def)
next
  case None
  assume r: "renderClip env c v fuel ov w = (out, ov', fuel', w')"
  from renderClip_resolved [OF None r] obtain w0 l1 where
    d: "drawLoop env c v fuel
       \<lparr>elapsed = 0, lastFrameTime = perfClock env (perfCalls w), overallProgress = ov\<rparr> w0 =
     (out, l1, fuel', w')"
    and w0: "trace w0 = trace w @ clipEvents env (canvasWidth w, canvasHeight w) v []"
      "outputUrl w0 = outputUrl w"
    by blast
  from drawLoop_summary [OF d] obtain es where
    es: "trace w' = trace w0 @ es" "list_all frameEvent es" "videoSources es = []"
      "outputUrl w' = outputUrl w0" "out = Completed \<or> out = Pending"
    by auto
  have "list_all loopEvent es"
    using es(2) by (simp add: list_all_iff frameEvent_loopEvent)
  with es w0 clipEvents_loopEvents [of env "(canvasWidth w, canvasHeight w)" v]
  show ?thesis
    by (intro conjI exI [of _ "clipEvents env (canvasWidth w, canvasHeight w) v [] @ es"])
       auto
qed


lemma renderClips_summary:
  "renderClips env c vs fuel ov w = (out, ov', fuel', w') \<Longrightarrow>
     out \<noteq> Returned \<and>
     (\<exists>es. trace w' = trace w @ es \<and> list_all loopEvent es \<and>
           (out = Completed \<longrightarrow> videoSources es = map objectUrl vs)) \<and>
     outputUrl w' = outputUrl w"
proof (induction vs arbitrary: fuel ov w)
  case Nil
  then show ?case by (simp add: videoSources_def)
next
  case (Cons v vs)
  obtain o1 ov1 f1 w1 where c1: "renderClip env c v fuel ov w = (o1, ov1, f1, w1)"
    by (cases "renderClip env c v fuel ov w") auto
  from renderClip_summary [OF c1] obtain es1 where
    s1: "o1 \<noteq> Returned" "trace w1 = trace w @ es1" "list_all loopEvent es1"
      "videoSources es1 = [objectUrl v]" "outputUrl w1 = outputUrl w"
    by auto
  show ?case
  proof (cases "o1 = Completed")
    case True
    with c1 Cons.prems have r: "renderClips env c vs f1 ov1 w1 = (out, ov', fuel', w')"
      by simp
    from Cons.IH [OF r] s1 show ?thesis
      by (auto simp: videoSources_def)
  next
    case False
    with c1 Cons.prems have "out = o1" "w' = w1"
      by (auto split: outcome.splits)
    with False s1 show ?thesis by auto
  qed
qed



lemma audioSetup_summary:
  "audioSetup env af w = (r, w') \<Longrightarrow>
     (\<exists>es. trace w' = trace w @ es \<and> list_all audioEvent es \<and>
        (r = None \<longrightarrow>
           (case af of
              None \<Rightarrow> es = silentAudioEvents (audioCurrentTime env)
            | Some f \<Rightarrow> (\<exists>b. decodeAudioData env f = Inr b \<and> es = fileAudioEvents f b)))) \<and>
     outputUrl w' = outputUrl w"
  by (auto simp: audioSetup_def effect_defs Let_def audioEvent_def silentAudioEvents_def
      fileAudioEvents_def split: option.splits sum.splits)

section \<open>The paths through the body of the try\<close>

lemma fold_ondataavailable: "fold recorder_ondataavailable ds cs = cs @ ds"
  by (induction ds arbitrary: cs) (simp_all add: recorder_ondataavailable_def)

lemma emit_emits: "emit e (emits es w) = emits (es @ [e]) w"
  by (simp add: emit_def emits_def)

lemma emits_emit: "emits es (emit e w) = emits (e # es) w"
  by (simp add: emit_def emits_def)

lemma emits_emits: "emits es (emits es' w) = emits (es' @ es) w"
  by (simp add: emits_def)

lemma emits_fields [simp]:
  "trace (emits es w) = trace w @ es" "outputUrl (emits es w) = outputUrl w"
  "urlCount (emits es w) = urlCount w" "perfCalls (emits es w) = perfCalls w"
  "progress (emits es w) = progress w"
  "canvasWidth (emits es w) = canvasWidth w" "canvasHeight (emits es w) = canvasHeight w"
  by (simp_all add: emits_def)

lemma recorder_onstop_fields:
  "trace (recorder_onstop m cs w) =
     trace w @ [NewBlob cs m, CreateObjectURL (''blob:'' @ show_nat (urlCount w)),
                SetOutputUrl (Some (''blob:'' @ show_nat (urlCount w))),
                SetStatus ''Render complete! Your video is ready for download.'',
                SetIsRendering False]"
  "outputUrl (recorder_onstop m cs w) = Some (''blob:'' @ show_nat (urlCount w))"
  "status (recorder_onstop m cs w) = ''Render complete! Your video is ready for download.''"
  "isRendering (recorder_onstop m cs w) = False"
  "progress (recorder_onstop m cs w) = progress w"
  by (simp_all add: recorder_onstop_def effect_defs Let_def)

lemma tryBody_cases
  [case_names unsupported noVideo noMetadata noContext audioFails recorderFails loopStops finished]:
  fixes env :: browser and c :: "'a state_scheme" and fuel :: nat and w :: world
  defines "m \<equiv> (if outputFormat c = mp4 then ''video/mp4'' else ''video/webm'')"
  defines "opts \<equiv> \<lparr>mimeType = m,
     videoBitsPerSecond = (if outputFormat c = mp4 then Some 25000000 else None)\<rparr>"
  defines "tracks \<equiv> canvasVideoTracks env @ destinationAudioTracks env"
  obtains
    (unsupported) "\<not> isTypeSupported env m"
      "tryBody env c fuel w =
        (Returned, setIsRendering False
           (setStatus (''Error: Your browser does not support '' @ m @
               '' recording. Please choose another format.'') w))"
  | (noVideo) "videos c = []"
      "tryBody env c fuel w =
        (Threw (Error ''Cannot read properties of undefined''),
         emits [CreateElement ''canvas'', CreateElement ''video'', VideoSetVolume 0,
                VideoDisablePictureInPicture] (canvasSized 300 150 w))"
  | (noMetadata) v0 rest where "videos c = v0 # rest"
      "loadedMetadata env (objectUrl v0) = None"
      "tryBody env c fuel w =
        (Threw (Error ''Failed to load video metadata.''),
         emits [CreateElement ''canvas'', CreateElement ''video'', VideoSetVolume 0,
                VideoDisablePictureInPicture, VideoSetSrc (objectUrl v0)] (canvasSized 300 150 w))"
  | (noContext) v0 rest cw ch where "videos c = v0 # rest"
      "loadedMetadata env (objectUrl v0) = Some (cw, ch)" "\<not> context2d env"
      "tryBody env c fuel w =
        (Threw (Error ''Could not get canvas context''),
         emits [CreateElement ''canvas'', CreateElement ''video'', VideoSetVolume 0,
                VideoDisablePictureInPicture, VideoSetSrc (objectUrl v0),
                CanvasResize cw ch, GetContext ''2d''] (canvasSized cw ch w))"
  | (audioFails) v0 rest cw ch e w4 where "videos c = v0 # rest"
      "audioSetup env (audioFile c) (emits (setupEvents (objectUrl v0) cw ch) (canvasSized cw ch w)) = (Some e, w4)"
      "tryBody env c fuel w = (Threw e, w4)"
  | (recorderFails) v0 rest cw ch e w4 where "videos c = v0 # rest"
      "audioSetup env (audioFile c) (emits (setupEvents (objectUrl v0) cw ch) (canvasSized cw ch w)) = (None, w4)"
      "newMediaRecorder env opts = Some e"
      "tryBody env c fuel w =
        (Threw e, emits [NewMediaStream tracks, NewMediaRecorder tracks opts] w4)"
  | (loopStops) v0 rest cw ch w4 out ov f' w6 where "videos c = v0 # rest"
      "audioSetup env (audioFile c) (emits (setupEvents (objectUrl v0) cw ch) (canvasSized cw ch w)) = (None, w4)"
      "renderClips env c (videos c) fuel 0 (emits (recorderEvents tracks opts) w4) =
         (out, ov, f', w6)"
      "out \<noteq> Completed" "tryBody env c fuel w = (out, w6)"
  | (finished) v0 rest cw ch w4 ov f' w6 where "videos c = v0 # rest"
      "isTypeSupported env m" "loadedMetadata env (objectUrl v0) = Some (cw, ch)"
      "context2d env" "newMediaRecorder env opts = None"
      "audioSetup env (audioFile c) (emits (setupEvents (objectUrl v0) cw ch) (canvasSized cw ch w)) = (None, w4)"
      "renderClips env c (videos c) fuel 0 (emits (recorderEvents tracks opts) w4) =
         (Completed, ov, f', w6)"
      "tryBody env c fuel w =
         (Completed, recorder_onstop m (recorded env)
            (emits [RecorderStop, VideoPause, AudioContextClose] w6))"
proof (cases "isTypeSupported env m")
  case False
  then have "tryBody env c fuel w =
        (Returned, setIsRendering False
           (setStatus (''Error: Your browser does not support '' @ m @
               '' recording. Please choose another format.'') w))"
    by (simp add: tryBody_def m_def)
  with False show thesis by (rule unsupported)
next
  case sup: True
  show thesis
  proof (cases "videos c")
    case Nil
    with sup have "tryBody env c fuel w =
        (Threw (Error ''Cannot read properties of undefined''),
         emits [CreateElement ''canvas'', CreateElement ''video'', VideoSetVolume 0,
                VideoDisablePictureInPicture] (canvasSized 300 150 w))"
      by (simp add: tryBody_def m_def Let_def effect_defs)
    with Nil show thesis by (rule noVideo)
  next
    case (Cons v0 rest)
    show thesis
    proof (cases "loadedMetadata env (objectUrl v0)")
      case None
      with sup Cons have "tryBody env c fuel w =
        (Threw (Error ''Failed to load video metadata.''),
         emits [CreateElement ''canvas'', CreateElement ''video'', VideoSetVolume 0,
                VideoDisablePictureInPicture, VideoSetSrc (objectUrl v0)] (canvasSized 300 150 w))"
        by (simp add: tryBody_def m_def Let_def effect_defs)
      with Cons None show thesis by (rule noMetadata)
    next
      case (Some dims)
      obtain cw ch where dims: "dims = (cw, ch)" by (cases dims)
      note md = Some [unfolded dims]
      show thesis
      proof (cases "context2d env")
        case False
        with sup Cons md have "tryBody env c fuel w =
          (Threw (Error ''Could not get canvas context''),
           emits [CreateElement ''canvas'', CreateElement ''video'', VideoSetVolume 0,
                VideoDisablePictureInPicture, VideoSetSrc (objectUrl v0),
                CanvasResize cw ch, GetContext ''2d''] (canvasSized cw ch w))"
          by (simp add: tryBody_def m_def Let_def effect_defs)
        with Cons md False show thesis by (rule noContext)
      next
        case ctx: True
        obtain r w4 where au:
          "audioSetup env (audioFile c) (emits (setupEvents (objectUrl v0) cw ch) (canvasSized cw ch w)) = (r, w4)"
          by (cases "audioSetup env (audioFile c) (emits (setupEvents (objectUrl v0) cw ch) (canvasSized cw ch w))")
        have w3: "emit (CaptureStream 30) (emit (GetContext ''2d'')
           (tempVideo_onloadedmetadata cw ch (emit (VideoSetSrc (objectUrl v0))
             (emits [CreateElement ''video'', VideoSetVolume 0, VideoDisablePictureInPicture]
                (createCanvas w))))) =
           emits (setupEvents (objectUrl v0) cw ch) (canvasSized cw ch w)"
          by (simp add: effect_defs setupEvents_def)
        show thesis
        proof (cases r)
          case (Some e)
          with sup Cons md ctx au w3 have "tryBody env c fuel w = (Threw e, w4)"
            by (simp add: tryBody_def m_def Let_def)
          with Cons au [unfolded Some] show thesis by (rule audioFails)
        next
          case None
          note au' = au [unfolded None]
          show thesis
          proof (cases "newMediaRecorder env opts")
            case (Some e)
            with sup Cons md ctx au' w3 have "tryBody env c fuel w =
               (Threw e, emits [NewMediaStream tracks, NewMediaRecorder tracks opts] w4)"
              by (simp add: tryBody_def m_def opts_def tracks_def Let_def)
            with Cons au' Some show thesis by (rule recorderFails)
          next
            case rec: None
            obtain out ov f' w6 where rc:
              "renderClips env c (videos c) fuel 0
                 (emits (recorderEvents tracks opts) w4) = (out, ov, f', w6)"
              by (cases "renderClips env c (videos c) fuel 0
                 (emits (recorderEvents tracks opts) w4)") auto
            have w5: "emit RecorderStart
                (emits [NewMediaStream tracks, NewMediaRecorder tracks opts] w4) =
                emits (recorderEvents tracks opts) w4"
              by (simp add: emit_emits recorderEvents_def)
            show thesis
            proof (cases "out = Completed")
              case True
              with sup Cons md ctx au' w3 rec rc w5 have "tryBody env c fuel w =
                 (Completed, recorder_onstop m (recorded env)
                    (emits [RecorderStop, VideoPause, AudioContextClose] w6))"
                by (simp add: tryBody_def m_def opts_def tracks_def Let_def
                    fold_ondataavailable)
              with Cons sup md ctx rec au' rc [unfolded True] show thesis
                by (rule finished)
            next
              case False
              with sup Cons md ctx au' w3 rec rc w5 have "tryBody env c fuel w = (out, w6)"
                by (cases out)
                   (simp_all add: tryBody_def m_def opts_def tracks_def Let_def)
              with Cons au' rc False show thesis by (rule loopStops)
            qed
          qed
        qed
      qed
    qed
  qed
qed

lemma renderInit_fields:
  "trace (renderInit w) = trace w @ initEvents"
  "outputUrl (renderInit w) = None" "progress (renderInit w) = Fin 0"
  "perfCalls (renderInit w) = perfCalls w" "videos (renderInit w) = videos w"
  by (simp_all add: renderInit_def effect_defs initEvents_def)

lemma tryBody_not_completed:
  assumes t: "tryBody env c fuel w = (out, w')" and n: "out \<noteq> Completed"
  shows "outputUrl w' = outputUrl w \<and>
     (\<exists>es. trace w' = trace w @ es \<and> createdUrls es = [] \<and> blobsMade es = [] \<and>
           outputUrlsSet es = [])"
proof (cases rule: tryBody_cases [where env = env and c = c and fuel = fuel and w = w])
  case unsupported
  with t show ?thesis by (auto simp: effect_defs projection_defs)
next
  case noVideo
  with t show ?thesis by (auto simp: projection_defs)
next
  case (noMetadata v0 rest)
  with t show ?thesis by (auto simp: projection_defs)
next
  case (noContext v0 rest cw ch)
  with t show ?thesis by (auto simp: projection_defs)
next
  case (audioFails v0 rest cw ch e w4)
  from audioSetup_summary [OF audioFails(2)] obtain es where
    "trace w4 = trace w @ setupEvents (objectUrl v0) cw ch @ es" "list_all audioEvent es"
    "outputUrl w4 = outputUrl w"
    by auto
  moreover have "createdUrls (setupEvents (objectUrl v0) cw ch) = []"
    "blobsMade (setupEvents (objectUrl v0) cw ch) = []"
    "outputUrlsSet (setupEvents (objectUrl v0) cw ch) = []"
    by (simp_all add: setupEvents_def projection_defs)
  ultimately show ?thesis
    using t audioFails(3) list_all_audio_no_side [of es] by auto
next
  case (recorderFails v0 rest cw ch e w4)
  from audioSetup_summary [OF recorderFails(2)] obtain es where
    "trace w4 = trace w @ setupEvents (objectUrl v0) cw ch @ es" "list_all audioEvent es"
    "outputUrl w4 = outputUrl w"
    by auto
  moreover have "createdUrls (setupEvents (objectUrl v0) cw ch) = []"
    "blobsMade (setupEvents (objectUrl v0) cw ch) = []"
    "outputUrlsSet (setupEvents (objectUrl v0) cw ch) = []"
    by (simp_all add: setupEvents_def projection_defs)
  ultimately show ?thesis
    using t recorderFails(4) list_all_audio_no_side [of es]
    by (auto simp: projection_defs)
next
  case (loopStops v0 rest cw ch w4 out' ov f' w6)
  from audioSetup_summary [OF loopStops(2)] obtain es where
    es: "trace w4 = trace w @ setupEvents (objectUrl v0) cw ch @ es" "list_all audioEvent es"
    "outputUrl w4 = outputUrl w"
    by auto
  from renderClips_summary [OF loopStops(3)] obtain ls where
    ls: "trace w6 = trace w4 @ recorderEvents
           (canvasVideoTracks env @ destinationAudioTracks env)
           \<lparr>mimeType = (if outputFormat c = mp4 then ''video/mp4'' else ''video/webm''),
            videoBitsPerSecond = (if outputFormat c = mp4 then Some 25000000 else None)\<rparr> @ ls"
      "list_all loopEvent ls" "outputUrl w6 = outputUrl w4"
    by auto
  have "createdUrls (setupEvents (objectUrl v0) cw ch) = []"
    "blobsMade (setupEvents (objectUrl v0) cw ch) = []"
    "outputUrlsSet (setupEvents (objectUrl v0) cw ch) = []"
    by (simp_all add: setupEvents_def projection_defs)
  moreover have "createdUrls (recorderEvents ts opts) = []"
    "blobsMade (recorderEvents ts opts) = []"
    "outputUrlsSet (recorderEvents ts opts) = []" for ts opts
    by (simp_all add: recorderEvents_def projection_defs)
  ultimately show ?thesis
    using t loopStops(5) es ls list_all_audio_no_side [of es] list_all_loop_no_side [of ls]
    by auto
next
  case (finished v0 rest cw ch w4 ov f' w6)
  with t n show ?thesis by simp
qed

lemma tryBody_completed:
  assumes t: "tryBody env c fuel w = (Completed, w')"
  shows "\<exists>v0 rest cw ch audioEvs loopEvs u.
     videos c = v0 # rest \<and> loadedMetadata env (objectUrl v0) = Some (cw, ch) \<and>
     trace w' = trace w @ setupEvents (objectUrl v0) cw ch @ audioEvs @
        recorderEvents (canvasVideoTracks env @ destinationAudioTracks env)
          \<lparr>mimeType = (if outputFormat c = mp4 then ''video/mp4'' else ''video/webm''),
           videoBitsPerSecond = (if outputFormat c = mp4 then Some 25000000 else None)\<rparr> @
        loopEvs @
        finishEvents (recorded env)
          (if outputFormat c = mp4 then ''video/mp4'' else ''video/webm'') u \<and>
     (case audioFile c of
        None \<Rightarrow> audioEvs = silentAudioEvents (audioCurrentTime env)
      | Some f \<Rightarrow> (\<exists>b. decodeAudioData env f = Inr b \<and> audioEvs = fileAudioEvents f b)) \<and>
     list_all audioEvent audioEvs \<and>
     list_all loopEvent loopEvs \<and> videoSources loopEvs = map objectUrl (videos c) \<and>
     outputUrl w' = Some u \<and>
     status w' = ''Render complete! Your video is ready for download.'' \<and>
     \<not> isRendering w'"
proof (cases rule: tryBody_cases [where env = env and c = c and fuel = fuel and w = w])
  case unsupported
  with t show ?thesis by simp
next
  case noVideo
  with t show ?thesis by simp
next
  case (noMetadata v0 rest)
  with t show ?thesis by simp
next
  case (noContext v0 rest cw ch)
  with t show ?thesis by simp
next
  case (audioFails v0 rest cw ch e w4)
  with t show ?thesis by simp
next
  case (recorderFails v0 rest cw ch e w4)
  with t show ?thesis by simp
next
  case (loopStops v0 rest cw ch w4 out' ov f' w6)
  with t show ?thesis by simp
next
  case (finished v0 rest cw ch w4 ov f' w6)
  from audioSetup_summary [OF finished(6)] obtain es where
    es: "trace w4 = trace w @ setupEvents (objectUrl v0) cw ch @ es" "list_all audioEvent es"
      "case audioFile c of
        None \<Rightarrow> es = silentAudioEvents (audioCurrentTime env)
      | Some f \<Rightarrow> (\<exists>b. decodeAudioData env f = Inr b \<and> es = fileAudioEvents f b)"
    by auto
  from renderClips_summary [OF finished(7)] obtain ls where
    ls: "trace w6 = trace w4 @ recorderEvents
           (canvasVideoTracks env @ destinationAudioTracks env)
           \<lparr>mimeType = (if outputFormat c = mp4 then ''video/mp4'' else ''video/webm''),
            videoBitsPerSecond = (if outputFormat c = mp4 then Some 25000000 else None)\<rparr> @ ls"
      "list_all loopEvent ls" "videoSources ls = map objectUrl (videos c)"
    by auto
  from t finished(8) have w': "w' = recorder_onstop
       (if outputFormat c = mp4 then ''video/mp4'' else ''video/webm'') (recorded env)
       (emits [RecorderStop, VideoPause, AudioContextClose] w6)"
    by simp
  let ?u = "''blob:'' @ show_nat (urlCount w6)"
  have "trace w' = trace w @ setupEvents (objectUrl v0) cw ch @ es @
        recorderEvents (canvasVideoTracks env @ destinationAudioTracks env)
          \<lparr>mimeType = (if outputFormat c = mp4 then ''video/mp4'' else ''video/webm''),
           videoBitsPerSecond = (if outputFormat c = mp4 then Some 25000000 else None)\<rparr> @
        ls @
        finishEvents (recorded env)
          (if outputFormat c = mp4 then ''video/mp4'' else ''video/webm'') ?u"
    unfolding w' by (simp add: recorder_onstop_fields es ls finishEvents_def)
  moreover have "outputUrl w' = Some ?u"
    "status w' = ''Render complete! Your video is ready for download.''"
    "\<not> isRendering w'"
    unfolding w' by (simp_all add: recorder_onstop_fields)
  ultimately show ?thesis
    using finished(1,3) es(2,3) ls(2,3) by blast
qed


section \<open>The render: failure and order of the steps\<close>

lemma world_fields_through_effects [simp]:
  "perfCalls (emit e w) = perfCalls w" "perfCalls (setStatus s w) = perfCalls w"
  "perfCalls (setProgress p w) = perfCalls w"
  by (simp_all add: effect_defs)

lemma demo_run_completes:
  "fst (tryBody demoBrowser oneClipWorld (Suc (Suc 0)) (renderInit oneClipWorld)) = Completed"
  by (simp add: tryBody_def oneClipWorld_fields demoBrowser_def Let_def audioSetup_def
      renderClip_def frameStep_def drawLoop_0 drawLoop_Suc performanceNow_def
      totalDuration_def num_ge_def num_min_def renderInit_fields split: prod.splits)

lemma broken_run_throws:
  "fst (tryBody brokenVideoBrowser oneClipWorld 0 (renderInit oneClipWorld)) =
     Threw (Error ''Failed to load video metadata.'')"
  by (simp add: tryBody_def oneClipWorld_fields demoBrowser_def brokenVideoBrowser_def Let_def)

text \<open>
  Claim C2. When the body of the try throws \<open>e\<close>, the handler ends through its
  catch: the status is \<open>Error during render:\<close> followed by the message of \<open>e\<close>,
  \<open>isRendering\<close> is false, and \<open>outputUrl\<close> is still the null it was reset to:
  the run set it once (to null), created no blob and no object URL, and the three
  effects of the catch are the last of the run.
\<close>

theorem C2_throw_aborts_render:
  assumes "videos w \<noteq> []"
    and "fst (tryBody env w fuel (renderInit w)) = Threw e"
  shows "fst (handleRenderVideo env fuel w) = Completed \<and>
     status (snd (handleRenderVideo env fuel w)) = ''Error during render: '' @ errorMessage e \<and>
     \<not> isRendering (snd (handleRenderVideo env fuel w)) \<and>
     outputUrl (snd (handleRenderVideo env fuel w)) = None \<and>
     outputUrlsSet (eventsSince w (snd (handleRenderVideo env fuel w))) = [None] \<and>
     createdUrls (eventsSince w (snd (handleRenderVideo env fuel w))) = [] \<and>
     blobsMade (eventsSince w (snd (handleRenderVideo env fuel w))) = [] \<and>
     (\<exists>es. eventsSince w (snd (handleRenderVideo env fuel w)) =
            initEvents @ es @ catchEvents e)"
proof -
  obtain w1 where t: "tryBody env w fuel (renderInit w) = (Threw e, w1)"
    using assms(2) by (cases "tryBody env w fuel (renderInit w)") auto
  from tryBody_not_completed [OF t] obtain es where
    es: "outputUrl w1 = None" "trace w1 = trace w @ initEvents @ es" "createdUrls es = []"
      "blobsMade es = []" "outputUrlsSet es = []"
    by (auto simp: renderInit_fields)
  let ?w' = "setIsRendering False
               (setStatus (''Error during render: '' @ errorMessage e)
                  (emit (ConsoleError ''Render failed:'') w1))"
  have h: "handleRenderVideo env fuel w = (Completed, ?w')"
    using assms(1) t by (simp add: handleRenderVideo_def)
  have tr: "trace ?w' = trace w @ initEvents @ es @ catchEvents e"
    by (simp add: effect_defs es catchEvents_def)
  have ev: "eventsSince w ?w' = initEvents @ es @ catchEvents e"
    by (rule eventsSince_append) (rule tr)
  have p: "outputUrlsSet initEvents = [None]" "createdUrls initEvents = []"
    "blobsMade initEvents = []" "outputUrlsSet (catchEvents e) = []"
    "createdUrls (catchEvents e) = []" "blobsMade (catchEvents e) = []"
    by (simp_all add: initEvents_def catchEvents_def projection_defs)
  show ?thesis
    unfolding h fst_conv snd_conv ev
    by (simp add: es p) (simp add: effect_defs es)
qed

theorem C2_witness:
  "videos oneClipWorld \<noteq> [] \<and>
   fst (tryBody brokenVideoBrowser oneClipWorld 0 (renderInit oneClipWorld)) =
     Threw (Error ''Failed to load video metadata.'') \<and>
   fst (handleRenderVideo brokenVideoBrowser 0 oneClipWorld) = Completed \<and>
   status (snd (handleRenderVideo brokenVideoBrowser 0 oneClipWorld)) =
     ''Error during render: Failed to load video metadata.'' \<and>
   \<not> isRendering (snd (handleRenderVideo brokenVideoBrowser 0 oneClipWorld)) \<and>
   outputUrl (snd (handleRenderVideo brokenVideoBrowser 0 oneClipWorld)) = None \<and>
   createdUrls (eventsSince oneClipWorld
      (snd (handleRenderVideo brokenVideoBrowser 0 oneClipWorld))) = []"
proof -
  have v: "videos oneClipWorld \<noteq> []"
    by (simp add: oneClipWorld_fields)
  from C2_throw_aborts_render [OF v broken_run_throws] v broken_run_throws
  show ?thesis
    by (simp add: errorMessage_def)
qed



section \<open>The audio track of the recorded stream\<close>

lemma stream_shape:
  assumes "audioGraphFor env af aes" and "list_all audioEvent aes"
    and "streamsMade rest = []"
  shows "streamsMade (setupEvents s cw ch @ aes @
            [NewMediaStream tracks, NewMediaRecorder tracks opts] @ rest) = [tracks] \<and>
     (\<exists>pre post graph.
        setupEvents s cw ch @ aes @
            [NewMediaStream tracks, NewMediaRecorder tracks opts] @ rest =
          pre @ graph @ NewMediaStream tracks # post \<and>
        audioGraphFor env af graph)"
proof -
  have "streamsMade (setupEvents s cw ch) = []"
    by (simp add: setupEvents_def)
  then have 1: "streamsMade (setupEvents s cw ch @ aes @
            [NewMediaStream tracks, NewMediaRecorder tracks opts] @ rest) = [tracks]"
    using assms(3) list_all_audio_no_side [OF assms(2)] by simp
  have "setupEvents s cw ch @ aes @
            [NewMediaStream tracks, NewMediaRecorder tracks opts] @ rest =
          setupEvents s cw ch @ aes @ NewMediaStream tracks #
            (NewMediaRecorder tracks opts # rest)"
    by simp
  with assms(1) 1 show ?thesis by blast
qed

lemma audioSetup_graph:
  "audioSetup env af w = (None, w') \<Longrightarrow>
     \<exists>es. trace w' = trace w @ es \<and> list_all audioEvent es \<and> audioGraphFor env af es"
  by (auto simp: audioSetup_def effect_defs Let_def audioEvent_def silentAudioEvents_def
      fileAudioEvents_def audioGraphFor_def split: option.splits sum.splits)

lemma tryBody_streams:
  assumes t: "tryBody env c fuel w = (out, w')"
  shows "\<exists>es. trace w' = trace w @ es \<and>
     (streamsMade es = [] \<and> out \<noteq> Completed \<or>
      streamsMade es = [canvasVideoTracks env @ destinationAudioTracks env] \<and>
      (\<exists>pre post graph.
         es = pre @ graph @
              NewMediaStream (canvasVideoTracks env @ destinationAudioTracks env) # post \<and>
         audioGraphFor env (audioFile c) graph))"
proof (cases rule: tryBody_cases [where env = env and c = c and fuel = fuel and w = w])
  case unsupported
  with t show ?thesis by (auto simp: effect_defs streamsMade_def)
next
  case noVideo
  with t show ?thesis by (auto simp: streamsMade_def)
next
  case (noMetadata v0 rest)
  with t show ?thesis by (auto simp: streamsMade_def)
next
  case (noContext v0 rest cw ch)
  with t show ?thesis by (auto simp: streamsMade_def)
next
  case (audioFails v0 rest cw ch e w4)
  from audioSetup_summary [OF audioFails(2)] obtain es where
    "trace w4 = trace w @ setupEvents (objectUrl v0) cw ch @ es" "list_all audioEvent es"
    by auto
  moreover have "streamsMade (setupEvents (objectUrl v0) cw ch) = []"
    by (simp add: setupEvents_def streamsMade_def)
  ultimately show ?thesis
    using t audioFails(3) list_all_audio_no_side [of es] by auto
next
  case (recorderFails v0 rest cw ch e w4)
  from audioSetup_graph [OF recorderFails(2)] obtain es where
    es: "trace w4 = trace w @ setupEvents (objectUrl v0) cw ch @ es" "list_all audioEvent es"
      "audioGraphFor env (audioFile c) es"
    by auto
  have "streamsMade ([] :: event list) = []" by simp
  from stream_shape [OF es(3) es(2) this] es(1) t recorderFails(4) show ?thesis
    by auto
next
  case (loopStops v0 rest cw ch w4 out' ov f' w6)
  from audioSetup_graph [OF loopStops(2)] obtain es where
    es: "trace w4 = trace w @ setupEvents (objectUrl v0) cw ch @ es" "list_all audioEvent es"
      "audioGraphFor env (audioFile c) es"
    by auto
  from renderClips_summary [OF loopStops(3)] obtain ls where
    ls: "trace w6 = trace w4 @ recorderEvents
           (canvasVideoTracks env @ destinationAudioTracks env)
           \<lparr>mimeType = (if outputFormat c = mp4 then ''video/mp4'' else ''video/webm''),
            videoBitsPerSecond = (if outputFormat c = mp4 then Some 25000000 else None)\<rparr> @ ls"
      "list_all loopEvent ls"
    by auto
  have "streamsMade (RecorderStart # ls) = []"
    using list_all_loop_no_side [OF ls(2)] by (simp add: streamsMade_def)
  from stream_shape [OF es(3) es(2) this] es(1) ls(1) t loopStops(5) show ?thesis
    by (auto simp: recorderEvents_def)
next
  case (finished v0 rest cw ch w4 ov f' w6)
  from audioSetup_graph [OF finished(6)] obtain es where
    es: "trace w4 = trace w @ setupEvents (objectUrl v0) cw ch @ es" "list_all audioEvent es"
      "audioGraphFor env (audioFile c) es"
    by auto
  from renderClips_summary [OF finished(7)] obtain ls where
    ls: "trace w6 = trace w4 @ recorderEvents
           (canvasVideoTracks env @ destinationAudioTracks env)
           \<lparr>mimeType = (if outputFormat c = mp4 then ''video/mp4'' else ''video/webm''),
            videoBitsPerSecond = (if outputFormat c = mp4 then Some 25000000 else None)\<rparr> @ ls"
      "list_all loopEvent ls"
    by auto
  let ?fin = "[RecorderStop, VideoPause, AudioContextClose,
     NewBlob (recorded env) (if outputFormat c = mp4 then ''video/mp4'' else ''video/webm''),
     CreateObjectURL (''blob:'' @ show_nat (urlCount w6)),
     SetOutputUrl (Some (''blob:'' @ show_nat (urlCount w6))),
     SetStatus ''Render complete! Your video is ready for download.'',
     SetIsRendering False]"
  have "streamsMade (RecorderStart # ls @ ?fin) = []"
    using list_all_loop_no_side [OF ls(2)] by (simp add: streamsMade_def)
  from stream_shape [OF es(3) es(2) this] es(1) ls(1) t finished(8) show ?thesis
    by (auto simp: recorderEvents_def recorder_onstop_fields)
qed

text \<open>
  Claim C4. Every combined stream a render makes consists of the video tracks of
  the canvas capture followed by the audio tracks of the stream destination, and
  it is made right after the audio graph was built: for an uploaded audio file the
  graph that connects the buffer decoded from it to the destination, otherwise the
  graph that connects an oscillator through a gain of zero to the destination. A
  render makes at most one such stream, and a render that runs to its end makes one.
\<close>

theorem C4_combined_stream_has_audio_track:
  "(streamsMade (eventsSince w (snd (handleRenderVideo env fuel w))) = [] \<or>
    streamsMade (eventsSince w (snd (handleRenderVideo env fuel w))) =
      [canvasVideoTracks env @ destinationAudioTracks env] \<and>
    (\<exists>pre post graph.
       eventsSince w (snd (handleRenderVideo env fuel w)) =
         pre @ graph @
         NewMediaStream (canvasVideoTracks env @ destinationAudioTracks env) # post \<and>
       audioGraphFor env (audioFile w) graph)) \<and>
   (videos w \<noteq> [] \<and> fst (tryBody env w fuel (renderInit w)) = Completed \<longrightarrow>
      streamsMade (eventsSince w (snd (handleRenderVideo env fuel w))) \<noteq> [])"
proof (cases "videos w = []")
  case True
  then have "eventsSince w (snd (handleRenderVideo env fuel w)) =
      [Alert ''Please upload videos before rendering.'']"
    by (simp add: handleRenderVideo_def eventsSince_def emit_def)
  with True show ?thesis by (simp add: streamsMade_def)
next
  case False
  obtain out w1 where t: "tryBody env w fuel (renderInit w) = (out, w1)"
    by (cases "tryBody env w fuel (renderInit w)")
  from tryBody_streams [OF t] obtain es where
    es: "trace w1 = trace w @ initEvents @ es"
      "streamsMade es = [] \<and> out \<noteq> Completed \<or>
       streamsMade es = [canvasVideoTracks env @ destinationAudioTracks env] \<and>
       (\<exists>pre post graph.
         es = pre @ graph @
              NewMediaStream (canvasVideoTracks env @ destinationAudioTracks env) # post \<and>
         audioGraphFor env (audioFile w) graph)"
    by (auto simp: renderInit_fields)
  obtain tl where tl: "eventsSince w (snd (handleRenderVideo env fuel w)) = initEvents @ es @ tl"
    "streamsMade tl = []"
  proof (cases out)
    case (Threw e)
    have "trace (snd (handleRenderVideo env fuel w)) = trace w @ initEvents @ es @ catchEvents e"
      using False t Threw by (simp add: handleRenderVideo_def effect_defs es(1) catchEvents_def)
    then have "eventsSince w (snd (handleRenderVideo env fuel w)) =
        initEvents @ es @ catchEvents e"
      by (rule eventsSince_append)
    moreover have "streamsMade (catchEvents e) = []"
      by (simp add: catchEvents_def streamsMade_def)
    ultimately show ?thesis by (rule that)
  next
    case Completed
    have "trace (snd (handleRenderVideo env fuel w)) = trace w @ initEvents @ es @ []"
      using False t Completed by (simp add: handleRenderVideo_def es(1))
    then have "eventsSince w (snd (handleRenderVideo env fuel w)) = initEvents @ es @ []"
      by (rule eventsSince_append)
    then show ?thesis by (rule that) simp
  next
    case Returned
    have "trace (snd (handleRenderVideo env fuel w)) = trace w @ initEvents @ es @ []"
      using False t Returned by (simp add: handleRenderVideo_def es(1))
    then have "eventsSince w (snd (handleRenderVideo env fuel w)) = initEvents @ es @ []"
      by (rule eventsSince_append)
    then show ?thesis by (rule that) simp
  next
    case Pending
    have "trace (snd (handleRenderVideo env fuel w)) = trace w @ initEvents @ es @ []"
      using False t Pending by (simp add: handleRenderVideo_def es(1))
    then have "eventsSince w (snd (handleRenderVideo env fuel w)) = initEvents @ es @ []"
      by (rule eventsSince_append)
    then show ?thesis by (rule that) simp
  qed
  have i: "streamsMade initEvents = []"
    by (simp add: initEvents_def streamsMade_def)
  from es(2) show ?thesis
  proof
    assume a: "streamsMade es = [] \<and> out \<noteq> Completed"
    with t have "fst (tryBody env w fuel (renderInit w)) \<noteq> Completed" by simp
    with a tl i show ?thesis by simp
  next
    assume a: "streamsMade es = [canvasVideoTracks env @ destinationAudioTracks env] \<and>
       (\<exists>pre post graph.
         es = pre @ graph @
              NewMediaStream (canvasVideoTracks env @ destinationAudioTracks env) # post \<and>
         audioGraphFor env (audioFile w) graph)"
    then obtain pre post graph where
      g: "es = pre @ graph @
              NewMediaStream (canvasVideoTracks env @ destinationAudioTracks env) # post"
         "audioGraphFor env (audioFile w) graph"
      by blast
    have "eventsSince w (snd (handleRenderVideo env fuel w)) =
        (initEvents @ pre) @ graph @
        NewMediaStream (canvasVideoTracks env @ destinationAudioTracks env) # (post @ tl)"
      by (simp add: tl(1) g(1))
    with g(2) have "\<exists>pre post graph.
       eventsSince w (snd (handleRenderVideo env fuel w)) =
         pre @ graph @
         NewMediaStream (canvasVideoTracks env @ destinationAudioTracks env) # post \<and>
       audioGraphFor env (audioFile w) graph"
      by blast
    moreover have "streamsMade (eventsSince w (snd (handleRenderVideo env fuel w))) =
        [canvasVideoTracks env @ destinationAudioTracks env]"
      using a tl i by simp
    ultimately show ?thesis by simp
  qed
qed

lemma demo_run_with_song_completes:
  "fst (tryBody demoBrowser (oneClipWorld\<lparr>audioFile := Some song\<rparr>) (Suc (Suc 0))
          (renderInit (oneClipWorld\<lparr>audioFile := Some song\<rparr>))) = Completed"
  by (simp add: tryBody_def oneClipWorld_fields demoBrowser_def Let_def audioSetup_def
      renderClip_def frameStep_def drawLoop_0 drawLoop_Suc performanceNow_def
      totalDuration_def num_ge_def num_min_def renderInit_fields split: prod.splits)

theorem C4_witness:
  "videos oneClipWorld \<noteq> [] \<and>
   fst (tryBody demoBrowser oneClipWorld (Suc (Suc 0)) (renderInit oneClipWorld)) = Completed \<and>
   streamsMade (eventsSince oneClipWorld
      (snd (handleRenderVideo demoBrowser (Suc (Suc 0)) oneClipWorld))) =
     [[VideoTrack ''canvas'', AudioTrack ''destination'']] \<and>
   (\<exists>pre post.
      eventsSince oneClipWorld
        (snd (handleRenderVideo demoBrowser (Suc (Suc 0)) oneClipWorld)) =
      pre @ silentAudioEvents 0 @
      NewMediaStream [VideoTrack ''canvas'', AudioTrack ''destination''] # post) \<and>
   videos (oneClipWorld\<lparr>audioFile := Some song\<rparr>) \<noteq> [] \<and>
   fst (tryBody demoBrowser (oneClipWorld\<lparr>audioFile := Some song\<rparr>) (Suc (Suc 0))
          (renderInit (oneClipWorld\<lparr>audioFile := Some song\<rparr>))) = Completed \<and>
   (\<exists>pre post.
      eventsSince (oneClipWorld\<lparr>audioFile := Some song\<rparr>)
        (snd (handleRenderVideo demoBrowser (Suc (Suc 0))
           (oneClipWorld\<lparr>audioFile := Some song\<rparr>))) =
      pre @ fileAudioEvents song [7, 7] @
      NewMediaStream [VideoTrack ''canvas'', AudioTrack ''destination''] # post)"
proof -
  let ?w2 = "oneClipWorld\<lparr>audioFile := Some song\<rparr>"
  have v: "videos oneClipWorld \<noteq> []" "videos ?w2 \<noteq> []"
    by (simp_all add: oneClipWorld_fields)
  have tr: "canvasVideoTracks demoBrowser @ destinationAudioTracks demoBrowser =
      [VideoTrack ''canvas'', AudioTrack ''destination'']"
    by (simp add: demoBrowser_def)
  have g1: "audioGraphFor demoBrowser (audioFile oneClipWorld) graph =
      (graph = silentAudioEvents 0)" for graph
    by (simp add: audioGraphFor_def oneClipWorld_fields demoBrowser_def)
  have g2: "audioGraphFor demoBrowser (audioFile ?w2) graph =
      (graph = fileAudioEvents song [7, 7])" for graph
    by (simp add: audioGraphFor_def demoBrowser_def song_def)
  note T1 = C4_combined_stream_has_audio_track [of oneClipWorld demoBrowser "Suc (Suc 0)"]
  note T2 = C4_combined_stream_has_audio_track [of ?w2 demoBrowser "Suc (Suc 0)"]
  from T1 v(1) demo_run_completes have n1:
    "streamsMade (eventsSince oneClipWorld
      (snd (handleRenderVideo demoBrowser (Suc (Suc 0)) oneClipWorld))) \<noteq> []"
    by blast
  from T2 v(2) demo_run_with_song_completes have n2:
    "streamsMade (eventsSince ?w2
      (snd (handleRenderVideo demoBrowser (Suc (Suc 0)) ?w2))) \<noteq> []"
    by blast
  from T1 n1 have a1:
    "streamsMade (eventsSince oneClipWorld
      (snd (handleRenderVideo demoBrowser (Suc (Suc 0)) oneClipWorld))) =
     [[VideoTrack ''canvas'', AudioTrack ''destination'']]"
    "\<exists>pre post.
      eventsSince oneClipWorld
        (snd (handleRenderVideo demoBrowser (Suc (Suc 0)) oneClipWorld)) =
      pre @ silentAudioEvents 0 @
      NewMediaStream [VideoTrack ''canvas'', AudioTrack ''destination''] # post"
    unfolding tr g1 by blast+
  from T2 n2 have a2:
    "\<exists>pre post.
      eventsSince ?w2 (snd (handleRenderVideo demoBrowser (Suc (Suc 0)) ?w2)) =
      pre @ fileAudioEvents song [7, 7] @
      NewMediaStream [VideoTrack ''canvas'', AudioTrack ''destination''] # post"
    unfolding tr g2 by blast
  from v demo_run_completes demo_run_with_song_completes a1 a2 show ?thesis
    by blast
qed

section \<open>Uploading and removing videos\<close>

lemma newVideoFiles_shape:
  "newVideoFiles env fs w = (vs, w') \<Longrightarrow>
     map file vs = fs \<and> videos w' = videos w \<and> status w' = status w"
proof (induction fs arbitrary: w vs w')
  case Nil
  then show ?case by simp
next
  case (Cons f fs)
  obtain vs1 w1 where r: "newVideoFiles env fs
      (snd (createObjectURL (snd (dateNowCall env w)))) = (vs1, w1)"
    by (cases "newVideoFiles env fs (snd (createObjectURL (snd (dateNowCall env w))))")
  from Cons.IH [OF r] Cons.prems r show ?case
    by (auto simp: effect_defs Let_def split: prod.splits)
qed

lemma handleVideoUpload_nothing_selected:
  "handleVideoUpload env None w = w" "handleVideoUpload env (Some []) w = w"
  by (simp_all add: handleVideoUpload_def)

lemma handleVideoUpload_appends:
  "\<exists>new. videos (handleVideoUpload env (Some fs) w) = videos w @ new \<and> map file new = fs"
proof (cases fs)
  case Nil
  then show ?thesis by (simp add: handleVideoUpload_def)
next
  case (Cons f fs')
  obtain vs w' where r: "newVideoFiles env fs w = (vs, w')"
    by (cases "newVideoFiles env fs w")
  from newVideoFiles_shape [OF r] r Cons show ?thesis
    by (simp add: handleVideoUpload_def effect_defs)
qed

lemma twinClipsWorld_fields:
  "videos twinClipsWorld =
     [\<lparr>id' = ''clip.mp4-1700000000000'', file = clipA, objectUrl = ''blob:0''\<rparr>,
      \<lparr>id' = ''clip.mp4-1700000000000'', file = clipB, objectUrl = ''blob:1''\<rparr>]"
  by (simp add: fixture_defs handleVideoUpload_def effect_defs show_nat.simps Let_def)

text \<open>
  Claim C5, at the failing input. Two files of the same name are picked in one
  upload and \<open>Date.now()\<close> reads the same millisecond for both: the two entries
  appended to the empty list carry the same id, although the files differ.
\<close>

theorem C5_same_name_same_millisecond_share_an_id:
  "videos (handleVideoUpload demoBrowser (Some [clipA, clipB]) initialWorld) =
     [\<lparr>id' = ''clip.mp4-1700000000000'', file = clipA, objectUrl = ''blob:0''\<rparr>,
      \<lparr>id' = ''clip.mp4-1700000000000'', file = clipB, objectUrl = ''blob:1''\<rparr>] \<and>
   clipA \<noteq> clipB \<and>
   \<not> distinct (map id' (videos (handleVideoUpload demoBrowser (Some [clipA, clipB]) initialWorld)))"
  using twinClipsWorld_fields by (simp add: twinClipsWorld_def clipA_def clipB_def)

section \<open>handleGenerateMusic\<close>

lemma trim_default_prompt: "trim ''Epic cinematic score'' \<noteq> []"
  by (simp add: trim_def is_white_space_def)

text \<open>
  Claim C6. With a prompt that is empty after trimming, or a total duration that is
  at most zero, \<open>handleGenerateMusic\<close> only shows the alert: nothing of the state
  changes (so neither \<open>musicDescription\<close> nor \<open>isGeneratingMusic\<close>) and no request
  is sent. Otherwise exactly one request is sent; the run ends unless the request
  never settles, and when it ends \<open>isGeneratingMusic\<close> is false; when the request
  is rejected, \<open>musicDescription\<close> is the fixed failure message.
\<close>

theorem C6_generate_music_guard_and_failure:
  "(trim (musicPrompt w) = [] \<or> num_le (totalDuration w) (Fin 0) \<longrightarrow>
      handleGenerateMusic env w =
        (Returned,
         w\<lparr>trace := trace w @
            [Alert ''Please add videos to set a total duration and enter a music prompt.'']\<rparr>)) \<and>
   (\<not> (trim (musicPrompt w) = [] \<or> num_le (totalDuration w) (Fin 0)) \<longrightarrow>
      (generateContent env ''gemini-2.5-flash'' (fullPrompt w) = NeverSettles \<longrightarrow>
         fst (handleGenerateMusic env w) = Pending) \<and>
      (generateContent env ''gemini-2.5-flash'' (fullPrompt w) \<noteq> NeverSettles \<longrightarrow>
         fst (handleGenerateMusic env w) = Completed \<and>
         \<not> isGeneratingMusic (snd (handleGenerateMusic env w))) \<and>
      (\<forall>e. generateContent env ''gemini-2.5-flash'' (fullPrompt w) = Rejected e \<longrightarrow>
         musicDescription (snd (handleGenerateMusic env w)) =
           ''Failed to generate music description. Please try again.'') \<and>
      requestsSent (eventsSince w (snd (handleGenerateMusic env w))) =
        [(''gemini-2.5-flash'', fullPrompt w)])"
  by (cases "generateContent env ''gemini-2.5-flash'' (fullPrompt w)")
     (simp_all add: handleGenerateMusic_def effect_defs eventsSince_def requestsSent_def Let_def)

theorem C6_witness:
  "(trim (musicPrompt initialWorld) = [] \<or> num_le (totalDuration initialWorld) (Fin 0)) \<and>
   fst (handleGenerateMusic demoBrowser initialWorld) = Returned \<and>
   musicDescription (snd (handleGenerateMusic demoBrowser initialWorld)) = [] \<and>
   isGeneratingMusic (snd (handleGenerateMusic demoBrowser initialWorld)) = False \<and>
   requestsSent
     (eventsSince initialWorld (snd (handleGenerateMusic demoBrowser initialWorld))) = [] \<and>
   \<not> (trim (musicPrompt oneClipWorld) = [] \<or>
      num_le (totalDuration oneClipWorld) (Fin 0)) \<and>
   generateContent demoBrowser ''gemini-2.5-flash'' (fullPrompt oneClipWorld) =
     Rejected (Error ''offline'') \<and>
   fst (handleGenerateMusic demoBrowser oneClipWorld) = Completed \<and>
   \<not> isGeneratingMusic (snd (handleGenerateMusic demoBrowser oneClipWorld)) \<and>
   musicDescription (snd (handleGenerateMusic demoBrowser oneClipWorld)) =
     ''Failed to generate music description. Please try again.''"
proof -
  have g: "num_le (totalDuration initialWorld) (Fin 0)"
    by (simp add: totalDuration_def initialWorld_def initialState_def state.extend_def)
  have i: "musicDescription initialWorld = []" "isGeneratingMusic initialWorld = False"
    by (simp_all add: initialWorld_def initialState_def state.extend_def)
  have n: "\<not> (trim (musicPrompt oneClipWorld) = [] \<or>
              num_le (totalDuration oneClipWorld) (Fin 0))"
    by (simp add: oneClipWorld_fields trim_default_prompt totalDuration_def)
  have r: "generateContent demoBrowser ''gemini-2.5-flash'' (fullPrompt oneClipWorld) =
     Rejected (Error ''offline'')"
    by (simp add: demoBrowser_def)
  from C6_generate_music_guard_and_failure [of initialWorld demoBrowser]
       C6_generate_music_guard_and_failure [of oneClipWorld demoBrowser] g i n r
  show ?thesis
    by (simp add: eventsSince_def requestsSent_def)
qed

section \<open>Rendering with no videos\<close>

text \<open>
  Claim C7. Called with an empty list of videos, \<open>handleRenderVideo\<close> shows the
  alert and returns: the world is the one it started from but for that alert, so
  \<open>isRendering\<close>, \<open>progress\<close>, \<open>status\<close> and \<open>outputUrl\<close> are unchanged. The
  Render button, which is shown whenever there is no output URL, is disabled exactly
  when a render is in progress or the list of videos is empty.
\<close>

theorem C7_empty_list_render_only_alerts:
  "(videos w = [] \<longrightarrow>
      handleRenderVideo env fuel w =
        (Returned,
         w\<lparr>trace := trace w @ [Alert ''Please upload videos before rendering.'']\<rparr>)) \<and>
   (outputUrl w = None \<longrightarrow> renderButton w \<noteq> None) \<and>
   (\<forall>b. renderButton w = Some b \<longrightarrow> disabled b = (isRendering w \<or> videos w = []))"
  by (auto simp: handleRenderVideo_def renderButton_def emit_def)

theorem C7_witness:
  "videos initialWorld = [] \<and>
   fst (handleRenderVideo demoBrowser 0 initialWorld) = Returned \<and>
   isRendering (snd (handleRenderVideo demoBrowser 0 initialWorld)) = False \<and>
   progress (snd (handleRenderVideo demoBrowser 0 initialWorld)) = Fin 0 \<and>
   status (snd (handleRenderVideo demoBrowser 0 initialWorld)) =
     ''Ready. Upload videos to begin.'' \<and>
   outputUrl (snd (handleRenderVideo demoBrowser 0 initialWorld)) = None \<and>
   trace (snd (handleRenderVideo demoBrowser 0 initialWorld)) =
     [Alert ''Please upload videos before rendering.''] \<and>
   renderButton initialWorld \<noteq> None \<and>
   disabled (the (renderButton initialWorld))"
proof -
  have e: "videos initialWorld = []"
    by (simp add: initialWorld_def initialState_def state.extend_def)
  have o: "outputUrl initialWorld = None"
    by (simp add: initialWorld_def initialState_def state.extend_def)
  from C7_empty_list_render_only_alerts [of initialWorld demoBrowser 0] e o
  show ?thesis
    by (auto simp: initialWorld_def initialState_def state.extend_def)
qed

section \<open>The progress value\<close>

lemma progress_value_bounds:
  assumes "num_less (Fin 0) (num_mult (masterDuration c) (Fin 1000))"
    and "videos c \<noteq> []"
  shows "\<exists>r. num_min (Fin 100)
            (num_mult (num_div (Fin x) (num_mult (totalDuration c) (Fin 1000))) (Fin 100)) =
          Fin r \<and> r \<le> 100 \<and> (0 \<le> x \<longrightarrow> 0 \<le> r)"
proof (cases "masterDuration c")
  case NaN
  with assms(1) show ?thesis by simp
next
  case PosInfinity
  with assms(2) show ?thesis
    by (simp add: totalDuration_def num_min_def)
next
  case NegInfinity
  with assms(1) show ?thesis by simp
next
  case (Fin m)
  with assms(1) have m: "0 < m" by simp
  from assms(2) have n: "0 < (of_nat (length (videos c)) :: rat)" by simp
  have d: "0 < of_nat (length (videos c)) * m * 1000"
    using m n by simp
  show ?thesis
    using Fin d m n
    by (auto simp: totalDuration_def num_min_def zero_le_divide_iff zero_le_mult_iff)
qed


lemma frameStep_progress:
  assumes f: "frameStep env c v l w = (l1, w1)"
    and cond: "num_less (Fin 0) (num_mult (masterDuration c) (Fin 1000))"
    and v: "videos c \<noteq> []"
    and b: "b \<longrightarrow> monotoneClock env \<and> 0 \<le> overallProgress l \<and>
              (\<exists>k. perfCalls w = Suc k \<and> lastFrameTime l = perfClock env k)"
  shows "list_all (progressOk b) (progressValues (eventsSince w w1)) \<and>
     progressOk b (progress w1) \<and>
     (b \<longrightarrow> 0 \<le> overallProgress l1 \<and>
        (\<exists>k. perfCalls w1 = Suc k \<and> lastFrameTime l1 = perfClock env k))"
proof -
  let ?x = "overallProgress l + (perfClock env (perfCalls w) - lastFrameTime l)"
  let ?p = "num_min (Fin 100)
              (num_mult (num_div (Fin ?x) (num_mult (totalDuration c) (Fin 1000))) (Fin 100))"
  from progress_value_bounds [OF cond v, of ?x] obtain r where
    r: "?p = Fin r" "r \<le> 100" "0 \<le> ?x \<longrightarrow> 0 \<le> r"
    by blast
  have x: "b \<longrightarrow> 0 \<le> ?x"
  proof
    assume b
    with b obtain k where k: "monotoneClock env" "0 \<le> overallProgress l"
      "perfCalls w = Suc k" "lastFrameTime l = perfClock env k"
      by blast
    from k(1) have "perfClock env k \<le> perfClock env (Suc k)"
      by (simp add: monotoneClock_def)
    with k show "0 \<le> ?x" by simp
  qed
  have ok: "progressOk b ?p"
    using r x by (simp add: progressOk_def inPercentRange_def atMostHundred_def)
  from f have l1: "l1 = \<lparr>elapsed = elapsed l + (perfClock env (perfCalls w) - lastFrameTime l),
       lastFrameTime = perfClock env (perfCalls w), overallProgress = ?x\<rparr>"
    and w1: "progress w1 = ?p" "perfCalls w1 = Suc (perfCalls w)"
      "progressValues (eventsSince w w1) = [?p]"
    by (auto simp: frameStep_eq effect_defs eventsSince_def)
  show ?thesis
    using ok x by (simp add: l1 w1)
qed

lemma drawLoop_progress:
  assumes "drawLoop env c v fuel l w = (out, l', fuel', w')"
    and "videos c \<noteq> []"
    and "num_less (Fin (elapsed l)) (num_mult (masterDuration c) (Fin 1000)) \<longrightarrow>
         num_less (Fin 0) (num_mult (masterDuration c) (Fin 1000))"
    and "b \<longrightarrow> monotoneClock env \<and> 0 \<le> overallProgress l \<and>
              (\<exists>k. perfCalls w = Suc k \<and> lastFrameTime l = perfClock env k)"
    and "progressOk b (progress w)"
  shows "list_all (progressOk b) (progressValues (eventsSince w w')) \<and>
     progressOk b (progress w') \<and> (b \<longrightarrow> 0 \<le> overallProgress l')"
  using assms
proof (induction fuel arbitrary: l w)
  case 0
  show ?case
  proof (cases "num_less (Fin (elapsed l)) (num_mult (masterDuration c) (Fin 1000))")
    case False
    with "0.prems" show ?thesis by (simp add: drawLoop_0)
  next
    case True
    obtain l1 w1 where f: "frameStep env c v l w = (l1, w1)"
      by (cases "frameStep env c v l w")
    with True "0.prems"(1) have e: "l' = l1" "w' = w1"
      by (simp_all add: drawLoop_0)
    from True "0.prems"(3) have c0: "num_less (Fin 0) (num_mult (masterDuration c) (Fin 1000))"
      by simp
    from frameStep_progress [OF f c0 "0.prems"(2) "0.prems"(4)] show ?thesis
      by (simp add: e)
  qed
next
  case (Suc n)
  show ?case
  proof (cases "num_less (Fin (elapsed l)) (num_mult (masterDuration c) (Fin 1000))")
    case False
    with Suc.prems show ?thesis by (simp add: drawLoop_Suc)
  next
    case True
    obtain l1 w1 where f: "frameStep env c v l w = (l1, w1)"
      by (cases "frameStep env c v l w")
    with True Suc.prems(1) have d: "drawLoop env c v n l1 w1 = (out, l', fuel', w')"
      by (simp add: drawLoop_Suc)
    from True Suc.prems(3) have c0: "num_less (Fin 0) (num_mult (masterDuration c) (Fin 1000))"
      by simp
    note s1 = frameStep_progress [OF f c0 Suc.prems(2) Suc.prems(4)]
    from s1 have b1: "b \<longrightarrow> monotoneClock env \<and> 0 \<le> overallProgress l1 \<and>
              (\<exists>k. perfCalls w1 = Suc k \<and> lastFrameTime l1 = perfClock env k)"
      using Suc.prems(4) by blast
    from s1 have p1: "progressOk b (progress w1)" by blast
    from c0 have c1: "num_less (Fin (elapsed l1)) (num_mult (masterDuration c) (Fin 1000)) \<longrightarrow>
         num_less (Fin 0) (num_mult (masterDuration c) (Fin 1000))"
      by simp
    note s2 = Suc.IH [OF d Suc.prems(2) c1 b1 p1]
    from frameStep_summary [OF f] obtain a where a: "trace w1 = trace w @ a" by blast
    from drawLoop_summary [OF d] obtain a' where a': "trace w' = trace w1 @ a'" by blast
    from s1 s2 show ?thesis
      by (simp add: eventsSince_trans [OF a a'])
  qed
qed

lemma renderClip_progress:
  assumes r: "renderClip env c v fuel ov w = (out, ov', fuel', w')"
    and v: "videos c \<noteq> []"
    and b: "b \<longrightarrow> monotoneClock env \<and> 0 \<le> ov"
    and p0: "progressOk b (progress w)"
  shows "list_all (progressOk b) (progressValues (eventsSince w w')) \<and>
     progressOk b (progress w') \<and> (b \<longrightarrow> 0 \<le> ov')"
proof (cases "playResult env (objectUrl v)")
  case (Some e)
  with r have "w' = emits [VideoSetSrc (objectUrl v), VideoPlay]
                 (setStatus (''Rendering: '' @ name (file v)) w)" "ov' = ov"
    by (simp_all add: renderClip_def Let_def)
  with b p0 show ?thesis
    by (simp add: effect_defs eventsSince_def)
next
  case None
  let ?l0 = "\<lparr>elapsed = 0, lastFrameTime = perfClock env (perfCalls w),
      overallProgress = ov\<rparr>"
  from renderClip_resolved [OF None r] obtain w0 l1 where
    d: "drawLoop env c v fuel ?l0 w0 = (out, l1, fuel', w')"
    and ov': "ov' = overallProgress l1"
    and a: "trace w0 = trace w @ clipEvents env (canvasWidth w, canvasHeight w) v []"
    and w0: "perfCalls w0 = Suc (perfCalls w)" "progress w0 = progress w"
    by blast
  have c0: "num_less (Fin (elapsed ?l0)) (num_mult (masterDuration c) (Fin 1000)) \<longrightarrow>
         num_less (Fin 0) (num_mult (masterDuration c) (Fin 1000))"
    by simp
  have b0: "b \<longrightarrow> monotoneClock env \<and> 0 \<le> overallProgress ?l0 \<and>
              (\<exists>k. perfCalls w0 = Suc k \<and> lastFrameTime ?l0 = perfClock env k)"
    using b by (simp add: w0)
  have p2: "progressOk b (progress w0)"
    using p0 by (simp add: w0)
  note s = drawLoop_progress [OF d v c0 b0 p2]
  from drawLoop_summary [OF d] obtain a' where a': "trace w' = trace w0 @ a'" by blast
  have "eventsSince w w0 = clipEvents env (canvasWidth w, canvasHeight w) v []"
    by (rule eventsSince_append) (rule a)
  moreover have "progressValues (clipEvents env (canvasWidth w, canvasHeight w) v []) = []"
    by (simp add: clipEvents_def split: option.splits)
  ultimately show ?thesis
    using s by (simp add: eventsSince_trans [OF a a'] ov')
qed

lemma renderClips_progress:
  assumes "renderClips env c vs fuel ov w = (out, ov', fuel', w')"
    and "videos c \<noteq> []"
    and "b \<longrightarrow> monotoneClock env \<and> 0 \<le> ov"
    and "progressOk b (progress w)"
  shows "list_all (progressOk b) (progressValues (eventsSince w w')) \<and>
     progressOk b (progress w')"
  using assms
proof (induction vs arbitrary: fuel ov w)
  case Nil
  then show ?case by simp
next
  case (Cons v vs)
  obtain o1 ov1 f1 w1 where c1: "renderClip env c v fuel ov w = (o1, ov1, f1, w1)"
    by (cases "renderClip env c v fuel ov w") auto
  note s1 = renderClip_progress [OF c1 Cons.prems(2) Cons.prems(3) Cons.prems(4)]
  show ?case
  proof (cases "o1 = Completed")
    case True
    with c1 Cons.prems(1) have r: "renderClips env c vs f1 ov1 w1 = (out, ov', fuel', w')"
      by simp
    from s1 Cons.prems(3) have b1: "b \<longrightarrow> monotoneClock env \<and> 0 \<le> ov1" by blast
    from s1 have p1: "progressOk b (progress w1)" by blast
    note s2 = Cons.IH [OF r Cons.prems(2) b1 p1]
    from renderClip_summary [OF c1] obtain a where a: "trace w1 = trace w @ a" by blast
    from renderClips_summary [OF r] obtain a' where a': "trace w' = trace w1 @ a'" by blast
    from s1 s2 show ?thesis
      by (simp add: eventsSince_trans [OF a a'])
  next
    case False
    with c1 Cons.prems(1) have "w' = w1"
      by (auto split: outcome.splits)
    with s1 show ?thesis by simp
  qed
qed

lemma audioSetup_progress: "audioSetup env af w = (r, w') \<Longrightarrow> progress w' = progress w"
  by (auto simp: audioSetup_def effect_defs Let_def split: option.splits sum.splits)

lemma tryBody_progress:
  assumes t: "tryBody env c fuel w = (out, w')"
    and v: "videos c \<noteq> []"
    and b: "b \<longrightarrow> monotoneClock env"
    and p0: "progressOk b (progress w)"
  shows "list_all (progressOk b) (progressValues (eventsSince w w')) \<and>
     progressOk b (progress w')"
proof (cases rule: tryBody_cases [where env = env and c = c and fuel = fuel and w = w])
  case unsupported
  with t p0 show ?thesis by (auto simp: effect_defs eventsSince_def)
next
  case noVideo
  with v show ?thesis by simp
next
  case (noMetadata v0 rest)
  with t p0 show ?thesis by (auto simp: eventsSince_def)
next
  case (noContext v0 rest cw ch)
  with t p0 show ?thesis by (auto simp: eventsSince_def)
next
  case (audioFails v0 rest cw ch e w4)
  from audioSetup_summary [OF audioFails(2)] obtain es where
    es: "trace w4 = trace w @ setupEvents (objectUrl v0) cw ch @ es" "list_all audioEvent es"
    by auto
  have "eventsSince w w4 = setupEvents (objectUrl v0) cw ch @ es"
    by (rule eventsSince_append) (rule es(1))
  moreover have "progressValues (setupEvents (objectUrl v0) cw ch) = []"
    by (simp add: setupEvents_def)
  ultimately show ?thesis
    using t audioFails(3) p0 list_all_audio_no_side [OF es(2)]
      audioSetup_progress [OF audioFails(2)]
    by simp
next
  case (recorderFails v0 rest cw ch e w4)
  from audioSetup_summary [OF recorderFails(2)] obtain es where
    es: "trace w4 = trace w @ setupEvents (objectUrl v0) cw ch @ es" "list_all audioEvent es"
    by auto
  let ?w5 = "emits [NewMediaStream (canvasVideoTracks env @ destinationAudioTracks env),
      NewMediaRecorder (canvasVideoTracks env @ destinationAudioTracks env)
        \<lparr>mimeType = (if outputFormat c = mp4 then ''video/mp4'' else ''video/webm''),
         videoBitsPerSecond = (if outputFormat c = mp4 then Some 25000000 else None)\<rparr>] w4"
  have "eventsSince w ?w5 = setupEvents (objectUrl v0) cw ch @ es @
     [NewMediaStream (canvasVideoTracks env @ destinationAudioTracks env),
      NewMediaRecorder (canvasVideoTracks env @ destinationAudioTracks env)
        \<lparr>mimeType = (if outputFormat c = mp4 then ''video/mp4'' else ''video/webm''),
         videoBitsPerSecond = (if outputFormat c = mp4 then Some 25000000 else None)\<rparr>]"
    by (rule eventsSince_append) (simp add: es(1))
  moreover have "progressValues (setupEvents (objectUrl v0) cw ch) = []"
    by (simp add: setupEvents_def)
  moreover have "w' = ?w5"
    using t recorderFails(4) by simp
  ultimately show ?thesis
    using p0 list_all_audio_no_side [OF es(2)] audioSetup_progress [OF recorderFails(2)]
    by simp
next
  case (loopStops v0 rest cw ch w4 out' ov f' w6)
  from audioSetup_summary [OF loopStops(2)] obtain es where
    es: "trace w4 = trace w @ setupEvents (objectUrl v0) cw ch @ es" "list_all audioEvent es"
    by auto
  let ?rec = "recorderEvents (canvasVideoTracks env @ destinationAudioTracks env)
        \<lparr>mimeType = (if outputFormat c = mp4 then ''video/mp4'' else ''video/webm''),
         videoBitsPerSecond = (if outputFormat c = mp4 then Some 25000000 else None)\<rparr>"
  let ?w5 = "emits ?rec w4"
  have a: "trace ?w5 = trace w @ setupEvents (objectUrl v0) cw ch @ es @ ?rec"
    by (simp add: es(1))
  from renderClips_summary [OF loopStops(3)] obtain ls where ls: "trace w6 = trace ?w5 @ ls"
    by blast
  have p5: "progressOk b (progress ?w5)"
    using p0 audioSetup_progress [OF loopStops(2)] by simp
  have b5: "b \<longrightarrow> monotoneClock env \<and> (0 :: rat) \<le> 0"
    using b by simp
  note s = renderClips_progress [OF loopStops(3) v b5 p5]
  have 5: "progressValues (eventsSince w ?w5) = []"
    using list_all_audio_no_side [OF es(2)] unfolding eventsSince_append [OF a]
    by (simp add: setupEvents_def recorderEvents_def)
  have e: "w' = w6"
    using t loopStops(5) by simp
  show ?thesis
    unfolding e eventsSince_trans [OF a ls] using s 5 by simp
next
  case (finished v0 rest cw ch w4 ov f' w6)
  from audioSetup_summary [OF finished(6)] obtain es where
    es: "trace w4 = trace w @ setupEvents (objectUrl v0) cw ch @ es" "list_all audioEvent es"
    by auto
  let ?rec = "recorderEvents (canvasVideoTracks env @ destinationAudioTracks env)
        \<lparr>mimeType = (if outputFormat c = mp4 then ''video/mp4'' else ''video/webm''),
         videoBitsPerSecond = (if outputFormat c = mp4 then Some 25000000 else None)\<rparr>"
  let ?w5 = "emits ?rec w4"
  let ?w' = "recorder_onstop (if outputFormat c = mp4 then ''video/mp4'' else ''video/webm'')
       (recorded env) (emits [RecorderStop, VideoPause, AudioContextClose] w6)"
  have a: "trace ?w5 = trace w @ setupEvents (objectUrl v0) cw ch @ es @ ?rec"
    by (simp add: es(1))
  from renderClips_summary [OF finished(7)] obtain ls where ls: "trace w6 = trace ?w5 @ ls"
    by blast
  have p5: "progressOk b (progress ?w5)"
    using p0 audioSetup_progress [OF finished(6)] by simp
  have b5: "b \<longrightarrow> monotoneClock env \<and> (0 :: rat) \<le> 0"
    using b by simp
  note s = renderClips_progress [OF finished(7) v b5 p5]
  have 5: "progressValues (eventsSince w ?w5) = []"
    using list_all_audio_no_side [OF es(2)] unfolding eventsSince_append [OF a]
    by (simp add: setupEvents_def recorderEvents_def)
  have 6: "list_all (progressOk b) (progressValues (eventsSince w w6))"
    unfolding eventsSince_trans [OF a ls] using s 5 by simp
  have f: "trace ?w' = trace w6 @ [RecorderStop, VideoPause, AudioContextClose,
     NewBlob (recorded env) (if outputFormat c = mp4 then ''video/mp4'' else ''video/webm''),
     CreateObjectURL (''blob:'' @ show_nat (urlCount w6)),
     SetOutputUrl (Some (''blob:'' @ show_nat (urlCount w6))),
     SetStatus ''Render complete! Your video is ready for download.'',
     SetIsRendering False]"
    by (simp add: recorder_onstop_fields)
  have w6: "trace w6 = trace w @ (setupEvents (objectUrl v0) cw ch @ es @ ?rec @ ls)"
    by (simp add: ls es(1))
  have "list_all (progressOk b) (progressValues (eventsSince w ?w'))"
    unfolding eventsSince_trans [OF w6 f] eventsSince_append [OF f] using 6 by simp
  moreover have "progressOk b (progress ?w')"
    using s by (simp add: recorder_onstop_fields)
  moreover have "w' = ?w'"
    using t finished(8) by simp
  ultimately show ?thesis
    by simp
qed

lemma handleRenderVideo_progress:
  assumes b: "b \<longrightarrow> monotoneClock env"
  shows "list_all (progressOk b)
       (progressValues (eventsSince w (snd (handleRenderVideo env fuel w)))) \<and>
     (progressOk b (progress w) \<longrightarrow>
        progressOk b (progress (snd (handleRenderVideo env fuel w)))) \<and>
     (videos w \<noteq> [] \<longrightarrow>
        (\<exists>ps. progressValues (eventsSince w (snd (handleRenderVideo env fuel w))) =
              Fin 0 # ps))"
proof (cases "videos w = []")
  case True
  then show ?thesis
    by (simp add: handleRenderVideo_def eventsSince_def emit_def)
next
  case False
  obtain out w1 where t: "tryBody env w fuel (renderInit w) = (out, w1)"
    by (cases "tryBody env w fuel (renderInit w)")
  have z: "progressOk b (Fin 0)"
    by (simp add: progressOk_def inPercentRange_def atMostHundred_def)
  then have p0: "progressOk b (progress (renderInit w))"
    by (simp add: renderInit_fields)
  note s = tryBody_progress [OF t False b p0]
  have i: "trace (renderInit w) = trace w @ initEvents"
    by (simp add: renderInit_fields)
  obtain es where es: "trace w1 = trace (renderInit w) @ es"
    using tryBody_streams [OF t] by blast
  have pi: "progressValues (eventsSince w (renderInit w)) = [Fin 0]"
    by (simp add: eventsSince_append [OF i] initEvents_def)
  have 1: "list_all (progressOk b) (progressValues (eventsSince w w1))"
    "progressValues (eventsSince w w1) = Fin 0 # progressValues (eventsSince (renderInit w) w1)"
    using s z by (simp_all add: eventsSince_trans [OF i es] pi)
  show ?thesis
  proof (cases "\<exists>e. out = Threw e")
    case True
    then obtain e where e: "out = Threw e" by blast
    let ?w' = "setIsRendering False
               (setStatus (''Error during render: '' @ errorMessage e)
                  (emit (ConsoleError ''Render failed:'') w1))"
    have h: "handleRenderVideo env fuel w = (Completed, ?w')"
      using False t e by (simp add: handleRenderVideo_def)
    have w1: "trace w1 = trace w @ (initEvents @ es)"
      by (simp add: es i)
    have c: "trace ?w' = trace w1 @ catchEvents e"
      by (simp add: effect_defs catchEvents_def)
    have "progressValues (eventsSince w ?w') = progressValues (eventsSince w w1)"
      unfolding eventsSince_trans [OF w1 c] eventsSince_append [OF c]
      by (simp add: catchEvents_def)
    moreover have "progress ?w' = progress w1"
      by (simp add: effect_defs)
    ultimately show ?thesis
      using 1 s by (simp add: h)
  next
    case False
    with t \<open>videos w \<noteq> []\<close> have "handleRenderVideo env fuel w = (out, w1)"
      by (cases out) (simp_all add: handleRenderVideo_def)
    with 1 s show ?thesis by simp
  qed
qed

text \<open>
  Claim C8. Every progress value a call of \<open>handleRenderVideo\<close> stores is a
  finite number of at most 100, for every browser; when \<open>performance.now()\<close>
  never runs backwards, every stored value lies between 0 and 100. The value left
  in the state is in the same range whenever the one before the call was. A render
  of a non-empty list stores 0 first.
\<close>

theorem C8_progress_stays_within_0_and_100:
  "list_all atMostHundred
     (progressValues (eventsSince w (snd (handleRenderVideo env fuel w)))) \<and>
   (atMostHundred (progress w) \<longrightarrow>
      atMostHundred (progress (snd (handleRenderVideo env fuel w)))) \<and>
   (monotoneClock env \<longrightarrow>
      list_all inPercentRange
        (progressValues (eventsSince w (snd (handleRenderVideo env fuel w)))) \<and>
      (inPercentRange (progress w) \<longrightarrow>
         inPercentRange (progress (snd (handleRenderVideo env fuel w))))) \<and>
   (videos w \<noteq> [] \<longrightarrow>
      (\<exists>ps. progressValues (eventsSince w (snd (handleRenderVideo env fuel w))) =
            Fin 0 # ps))"
proof -
  have f: "progressOk False = atMostHundred" and t: "progressOk True = inPercentRange"
    by (simp_all add: progressOk_def fun_eq_iff)
  from handleRenderVideo_progress [of False env w fuel]
       handleRenderVideo_progress [of True env w fuel]
  show ?thesis
    unfolding f t by blast
qed

lemma demoBrowser_monotone: "monotoneClock demoBrowser"
  by (simp add: monotoneClock_def demoBrowser_def)

lemma demo_run_progress:
  "progressValues (eventsSince oneClipWorld
      (snd (handleRenderVideo demoBrowser (Suc (Suc 0)) oneClipWorld))) =
     [Fin 0, Fin 60, Fin 100]"
  "progress (snd (handleRenderVideo demoBrowser (Suc (Suc 0)) oneClipWorld)) = Fin 100"
  by (simp_all add: handleRenderVideo_def tryBody_def oneClipWorld_fields demoBrowser_def
      Let_def audioSetup_def renderClip_def frameStep_def drawLoop_0 drawLoop_Suc
      totalDuration_def num_ge_def num_min_def renderInit_def recorder_onstop_def
      eventsSince_def effect_defs split: prod.splits)

theorem C8_witness:
  "monotoneClock demoBrowser \<and> videos oneClipWorld \<noteq> [] \<and>
   inPercentRange (progress oneClipWorld) \<and>
   progressValues (eventsSince oneClipWorld
      (snd (handleRenderVideo demoBrowser (Suc (Suc 0)) oneClipWorld))) =
     [Fin 0, Fin 60, Fin 100] \<and>
   list_all inPercentRange (progressValues (eventsSince oneClipWorld
      (snd (handleRenderVideo demoBrowser (Suc (Suc 0)) oneClipWorld)))) \<and>
   inPercentRange (progress (snd (handleRenderVideo demoBrowser (Suc (Suc 0)) oneClipWorld)))"
proof -
  have v: "videos oneClipWorld \<noteq> []" "inPercentRange (progress oneClipWorld)"
    by (simp_all add: oneClipWorld_fields inPercentRange_def)
  from C8_progress_stays_within_0_and_100 [of oneClipWorld demoBrowser "Suc (Suc 0)"]
       demoBrowser_monotone v demo_run_progress(1)
  show ?thesis by blast
qed

lemma find_filter_unique:
  "distinct (map id' vs) \<Longrightarrow> v \<in> set vs \<Longrightarrow>
     find (\<lambda>x. id' x = id' v) vs = Some v \<and>
     filter (\<lambda>x. id' x \<noteq> id' v) vs = remove1 v vs"
proof (induction vs)
  case Nil
  then show ?case by simp
next
  case (Cons a vs)
  show ?case
  proof (cases "a = v")
    case True
    with Cons.prems have "\<forall>x\<in>set vs. id' x \<noteq> id' v"
      by (auto simp: image_iff)
    then have "filter (\<lambda>x. id' x \<noteq> id' v) vs = vs"
      by (simp add: filter_id_conv)
    with True show ?thesis by simp
  next
    case False
    with Cons.prems have "v \<in> set vs" "id' a \<noteq> id' v"
      by (auto simp: image_iff)
    with Cons False show ?thesis by auto
  qed
qed

text \<open>
  While the ids of the list are pairwise different, \<open>handleRemoveVideo\<close> behaves as
  intended: it removes the one entry of that id and revokes the URL of that entry;
  for an id that no entry has it keeps the list and revokes nothing.
\<close>

lemma handleRemoveVideo_unique_ids:
  assumes "distinct (map id' (videos w))" and "v \<in> set (videos w)"
  shows "videos (handleRemoveVideo (id' v) w) = remove1 v (videos w)"
    and "revokedUrls (eventsSince w (handleRemoveVideo (id' v) w)) = [objectUrl v]"
  using find_filter_unique [OF assms]
  by (simp_all add: handleRemoveVideo_def effect_defs eventsSince_def revokedUrls_def Let_def)

lemma handleRemoveVideo_absent_id:
  assumes "i \<notin> id' ` set (videos w)"
  shows "videos (handleRemoveVideo i w) = videos w"
    and "revokedUrls (eventsSince w (handleRemoveVideo i w)) = []"
proof -
  from assms have n: "\<forall>x\<in>set (videos w). id' x \<noteq> i"
    by auto
  then have f: "find (\<lambda>x. id' x = i) (videos w) = None"
    by (simp add: find_None_iff)
  from n have k: "filter (\<lambda>x. id' x \<noteq> i) (videos w) = videos w"
    by (simp add: filter_id_conv)
  from f k show "videos (handleRemoveVideo i w) = videos w"
    by (simp add: handleRemoveVideo_def effect_defs Let_def)
  from f k show "revokedUrls (eventsSince w (handleRemoveVideo i w)) = []"
    by (simp add: handleRemoveVideo_def effect_defs eventsSince_def revokedUrls_def Let_def)
qed

text \<open>
  Claim C9, at the failing input: the list of two entries that share an id, as the
  upload of claim C5 leaves it. Removing by that id drops both entries and revokes
  the object URL of the first one only; \<open>handleClearAllVideos\<close>, on the same list,
  revokes the URL of every entry it drops.
\<close>

theorem C9_shared_id_removes_both_revokes_one:
  "map objectUrl (videos twinClipsWorld) = [''blob:0'', ''blob:1''] \<and>
   videos (handleRemoveVideo ''clip.mp4-1700000000000'' twinClipsWorld) = [] \<and>
   revokedUrls (eventsSince twinClipsWorld
      (handleRemoveVideo ''clip.mp4-1700000000000'' twinClipsWorld)) = [''blob:0''] \<and>
   videos (handleClearAllVideos twinClipsWorld) = [] \<and>
   revokedUrls (eventsSince twinClipsWorld (handleClearAllVideos twinClipsWorld)) =
     [''blob:0'', ''blob:1'']"
  by (simp add: twinClipsWorld_fields handleRemoveVideo_def handleClearAllVideos_def
      effect_defs eventsSince_def revokedUrls_def Let_def)

end
